theory Spec2Isabelle
  imports Complex_Main
begin

section \<open>Data model\<close>

text \<open>
  The engine is a pure transform over value objects. Python floats are modelled as
  \<^typ>\<open>real\<close> (exact arithmetic, no NaN or infinity), Python ints as \<^typ>\<open>int\<close>,
  \<open>Optional[T]\<close> as \<^typ>\<open>'a option\<close>. A naive \<open>datetime\<close> is the number of
  microseconds since a fixed epoch, a \<open>date\<close> the number of days since that epoch;
  \<open>datetime.now().date()\<close> is the parameter \<open>today\<close> of every function that reads it.
  Logging has no effect on any result and is left out.
\<close>

type_synonym datetime = int
type_synonym date = int

definition date_of :: "datetime \<Rightarrow> date" where
  "date_of t = t div 86400000000"

definition at_midnight :: "date \<Rightarrow> datetime" where
  "at_midnight d = d * 86400000000"

datatype py_error = TypeError | ZeroDivisionError

text \<open>src/data_fetcher.py: OptionChainData, Position, AccountInfo (the broker's
  \<open>contract\<close> handle is never read by the engine and is left out).\<close>

record OptionChainData =
  o_symbol :: string
  o_strike :: real
  o_expiration :: datetime
  o_right :: string
  o_bid :: real
  o_ask :: real
  o_last :: real
  o_volume :: int
  o_open_interest :: int
  o_delta :: "real option"
  o_gamma :: "real option"
  o_theta :: "real option"
  o_vega :: "real option"
  o_iv :: "real option"

record Position =
  p_symbol :: string
  p_position_type :: string
  p_quantity :: int
  p_avg_cost :: real
  p_market_value :: real
  p_unrealized_pnl :: real
  p_realized_pnl :: real
  p_strike :: "real option"
  p_expiration :: "datetime option"
  p_right :: "string option"

record AccountInfo =
  account_number :: string
  net_liquidation :: real
  total_cash :: real
  buying_power :: real
  available_funds :: real
  excess_liquidity :: real
  margin_used :: real
  margin_available :: real

text \<open>src/config_loader.py: SymbolConfig, RiskConfig, StrategyConfig.\<close>

record SymbolConfig =
  symbol :: string
  enabled :: bool
  max_positions :: int
  target_delta :: real
  min_premium :: real
  min_premium_percent :: real
  dte_min :: int
  dte_max :: int
  roll_when_dte :: int
  roll_when_pnl_percent :: real
  write_calls_on_assignment :: bool
  max_position_size_percent :: real

record RiskConfig =
  max_portfolio_margin_usage :: real
  max_concentration_per_symbol :: real
  max_vix_for_new_positions :: "real option"
  reduce_size_when_vix_above :: "real option"
  vix_size_reduction_factor :: real
  enable_stop_loss :: bool
  stop_loss_percent :: real
  max_total_positions :: "int option"

record StrategyConfig =
  strategy_name :: string
  wheel_enabled :: bool
  prefer_cash_secured_puts :: bool
  iron_condor_enabled :: bool
  strangle_enabled :: bool

text \<open>src/strategy_base.py: StrategyType, Action, TradeRecommendation.\<close>

datatype StrategyType = WHEEL | IRON_CONDOR | STRANGLE | BUTTERFLY | CALENDAR

datatype Action =
    SELL_PUT | SELL_CALL | ROLL_PUT | ROLL_CALL | CLOSE_PUT | CLOSE_CALL
  | SELL_IRON_CONDOR | CLOSE_IRON_CONDOR | ROLL_IRON_CONDOR | ADJUST_IRON_CONDOR
  | DO_NOTHING

text \<open>
  The \<open>reasoning\<close> of a recommendation is an f-string. The model keeps which template
  it is (the constructor) and the values interpolated into it (the arguments), not the
  formatted digits.
\<close>

datatype Reasoning =
    NoReasoning
  | ClosePutForProfit real real
  | RollPutWithDte int int
  | CloseCallForProfit real real
  | RollCallWithDte int int
  | SellCashSecuredPut real datetime real "real option"
  | SellCoveredCall real datetime real "real option"
  | CloseIronCondorForProfit real real
  | CloseIronCondorForLoss real real
  | RollIronCondorWithDte int
  | PriceTestingStrikes real real real
  | SellIronCondorFor real real real real real

record TradeRecommendation =
  r_action :: Action
  r_symbol :: string
  r_quantity :: int
  r_strategy_type :: StrategyType
  r_strike :: "real option"
  r_expiration :: "datetime option"
  r_right :: "string option"
  r_premium :: "real option"
  r_delta :: "real option"
  r_long_call_strike :: "real option"
  r_short_call_strike :: "real option"
  r_long_put_strike :: "real option"
  r_short_put_strike :: "real option"
  r_existing_position :: "Position option"
  r_new_strike :: "real option"
  r_new_expiration :: "datetime option"
  r_reasoning :: Reasoning
  r_expected_credit :: "real option"
  r_max_loss :: "real option"
  r_max_profit :: "real option"

text \<open>The dataclass constructor with only its four required fields given: every other
  field takes its default (\<open>None\<close>, or the empty reasoning).\<close>

definition TradeRecommendation_init ::
    "Action \<Rightarrow> string \<Rightarrow> int \<Rightarrow> StrategyType \<Rightarrow> TradeRecommendation" where
  "TradeRecommendation_init a s q t =
     \<lparr> r_action = a, r_symbol = s, r_quantity = q, r_strategy_type = t,
       r_strike = None, r_expiration = None, r_right = None, r_premium = None,
       r_delta = None, r_long_call_strike = None, r_short_call_strike = None,
       r_long_put_strike = None, r_short_put_strike = None, r_existing_position = None,
       r_new_strike = None, r_new_expiration = None, r_reasoning = NoReasoning,
       r_expected_credit = None, r_max_loss = None, r_max_profit = None \<rparr>"

section \<open>Risk manager (src/risk\_manager.py)\<close>

datatype RiskViolation =
    MARGIN_EXCEEDED | CONCENTRATION_EXCEEDED | POSITION_LIMIT_EXCEEDED | VIX_TOO_HIGH
  | BUYING_POWER_INSUFFICIENT | PORTFOLIO_OVEREXPOSED | STOP_LOSS_TRIGGERED

text \<open>The human-readable reasons, again as template and interpolated values.\<close>

datatype Reason =
    VixExceedsMaximum real real
  | VixReducingPositionSize real real int int
  | TotalEquityZeroOrNegative
  | MarginUsageAboveLimit real real
  | AtMaximumTotalPositions int
  | AtMaximumPositionsFor string int
  | CannotCalculateConcentration
  | ConcentrationAboveLimit string real real
  | ConcentrationAboveSymbolLimit string real real
  | InsufficientBuyingPower real real

record RiskCheckResult =
  approved :: bool
  violations :: "RiskViolation list"
  reasons :: "Reason list"
  adjusted_quantity :: "int option"

record RiskManager =
  config :: RiskConfig
  symbol_configs :: "string \<Rightarrow> SymbolConfig option"

text \<open>Python's \<open>int(x)\<close> on a float truncates toward zero.\<close>

definition py_int :: "real \<Rightarrow> int" where
  "py_int x = (if 0 \<le> x then \<lfloor>x\<rfloor> else \<lceil>x\<rceil>)"

definition is_opening :: "TradeRecommendation \<Rightarrow> bool" where
  "is_opening recommendation = (r_action recommendation \<in> set [SELL_PUT, SELL_CALL])"

definition estimate_margin_requirement :: "TradeRecommendation \<Rightarrow> real" where
  "estimate_margin_requirement recommendation =
     (if r_action recommendation \<in> set [SELL_PUT] then
        (case r_strike recommendation of
           None \<Rightarrow> 0
         | Some k \<Rightarrow> if k = 0 then 0 else k * 100 * real_of_int (r_quantity recommendation))
      else if r_action recommendation \<in> set [SELL_CALL] then 0
      else 0)"

definition estimate_position_value :: "TradeRecommendation \<Rightarrow> real" where
  "estimate_position_value recommendation =
     (case r_strike recommendation of
        None \<Rightarrow> 0
      | Some k \<Rightarrow> if k = 0 then 0 else k * 100 * real_of_int (r_quantity recommendation))"

definition estimate_buying_power_requirement :: "TradeRecommendation \<Rightarrow> real" where
  "estimate_buying_power_requirement recommendation =
     estimate_margin_requirement recommendation"

text \<open>\<open>_check_vix_limits\<close>: the hard block appends a violation and a reason; the size
  reduction appends a reason only and sets \<open>adjusted_quantity\<close>.\<close>

definition check_vix_limits :: "RiskManager \<Rightarrow> real \<Rightarrow> TradeRecommendation \<Rightarrow> RiskCheckResult" where
  "check_vix_limits self vix recommendation =
     (let blocked =
            (case max_vix_for_new_positions (config self) of
               None \<Rightarrow> False
             | Some m \<Rightarrow> vix > m \<and> is_opening recommendation);
          violations1 = (if blocked then [VIX_TOO_HIGH] else []);
          reasons1 =
            (case max_vix_for_new_positions (config self) of
               None \<Rightarrow> []
             | Some m \<Rightarrow> if blocked then [VixExceedsMaximum vix m] else []);
          reduced_qty =
            py_int (real_of_int (r_quantity recommendation)
                    * vix_size_reduction_factor (config self));
          reducing =
            (case reduce_size_when_vix_above (config self) of
               None \<Rightarrow> False
             | Some t \<Rightarrow> vix > t \<and> is_opening recommendation
                         \<and> reduced_qty < r_quantity recommendation);
          adjusted = (if reducing then Some (max 1 reduced_qty) else None);
          reasons2 =
            (case reduce_size_when_vix_above (config self) of
               None \<Rightarrow> []
             | Some t \<Rightarrow>
                 if reducing
                 then [VixReducingPositionSize vix t (r_quantity recommendation) (max 1 reduced_qty)]
                 else [])
      in \<lparr> approved = (length violations1 = 0), violations = violations1,
           reasons = reasons1 @ reasons2, adjusted_quantity = adjusted \<rparr>)"

definition check_margin_usage ::
    "RiskManager \<Rightarrow> TradeRecommendation \<Rightarrow> Position list \<Rightarrow> AccountInfo \<Rightarrow> RiskCheckResult" where
  "check_margin_usage self recommendation positions account_info =
     (let current_margin = margin_used account_info;
          total_equity = net_liquidation account_info
      in if total_equity \<le> 0 then
           \<lparr> approved = False, violations = [MARGIN_EXCEEDED],
             reasons = [TotalEquityZeroOrNegative], adjusted_quantity = None \<rparr>
         else
           (let additional_margin = estimate_margin_requirement recommendation;
                new_margin = current_margin + additional_margin;
                new_usage_pct = new_margin / total_equity;
                over = (new_usage_pct > max_portfolio_margin_usage (config self));
                vs = (if over then [MARGIN_EXCEEDED] else []);
                rs = (if over
                      then [MarginUsageAboveLimit new_usage_pct
                              (max_portfolio_margin_usage (config self))]
                      else [])
            in \<lparr> approved = (length vs = 0), violations = vs, reasons = rs,
                 adjusted_quantity = None \<rparr>))"

definition check_position_limits ::
    "RiskManager \<Rightarrow> TradeRecommendation \<Rightarrow> Position list \<Rightarrow> RiskCheckResult" where
  "check_position_limits self recommendation positions =
     (let total_hit =
            (case max_total_positions (config self) of
               None \<Rightarrow> None
             | Some m \<Rightarrow>
                 (let current_positions =
                        int (length (filter (\<lambda>p. p_quantity p \<noteq> 0) positions));
                      is_new_position = is_opening recommendation
                  in if is_new_position \<and> current_positions \<ge> m then Some m else None));
          symbol_hit =
            (case symbol_configs self (r_symbol recommendation) of
               None \<Rightarrow> None
             | Some symbol_config \<Rightarrow>
                 (let current_count =
                        int (length (filter (\<lambda>p. p_symbol p = r_symbol recommendation
                                               \<and> p_quantity p \<noteq> 0) positions));
                      is_new_position = is_opening recommendation
                  in if is_new_position \<and> current_count \<ge> max_positions symbol_config
                     then Some (max_positions symbol_config) else None));
          vs = (case total_hit of None \<Rightarrow> [] | Some m \<Rightarrow> [POSITION_LIMIT_EXCEEDED])
             @ (case symbol_hit of None \<Rightarrow> [] | Some m \<Rightarrow> [POSITION_LIMIT_EXCEEDED]);
          rs = (case total_hit of None \<Rightarrow> [] | Some m \<Rightarrow> [AtMaximumTotalPositions m])
             @ (case symbol_hit of None \<Rightarrow> []
                | Some m \<Rightarrow> [AtMaximumPositionsFor (r_symbol recommendation) m])
      in \<lparr> approved = (length vs = 0), violations = vs, reasons = rs,
           adjusted_quantity = None \<rparr>)"

definition current_exposure :: "string \<Rightarrow> Position list \<Rightarrow> real" where
  "current_exposure name positions =
     sum_list (map (\<lambda>p. \<bar>p_market_value p\<bar>) (filter (\<lambda>p. p_symbol p = name) positions))"

definition check_concentration ::
    "RiskManager \<Rightarrow> TradeRecommendation \<Rightarrow> Position list \<Rightarrow> AccountInfo \<Rightarrow> RiskCheckResult" where
  "check_concentration self recommendation positions account_info =
     (let total_equity = net_liquidation account_info
      in if total_equity \<le> 0 then
           \<lparr> approved = False, violations = [CONCENTRATION_EXCEEDED],
             reasons = [CannotCalculateConcentration], adjusted_quantity = None \<rparr>
         else
           (let additional_exposure = estimate_position_value recommendation;
                new_exposure =
                  current_exposure (r_symbol recommendation) positions + additional_exposure;
                concentration_pct = new_exposure / total_equity;
                over = (concentration_pct > max_concentration_per_symbol (config self));
                symbol_over =
                  (case symbol_configs self (r_symbol recommendation) of
                     None \<Rightarrow> None
                   | Some symbol_config \<Rightarrow>
                       if max_position_size_percent symbol_config = 0 then None
                       else (let limit_pct = max_position_size_percent symbol_config / 100
                             in if concentration_pct > limit_pct then Some limit_pct else None));
                vs = (if over then [CONCENTRATION_EXCEEDED] else [])
                   @ (case symbol_over of None \<Rightarrow> [] | Some l \<Rightarrow> [CONCENTRATION_EXCEEDED]);
                rs = (if over
                      then [ConcentrationAboveLimit (r_symbol recommendation) concentration_pct
                              (max_concentration_per_symbol (config self))]
                      else [])
                   @ (case symbol_over of None \<Rightarrow> []
                      | Some l \<Rightarrow> [ConcentrationAboveSymbolLimit (r_symbol recommendation)
                                     concentration_pct l])
            in \<lparr> approved = (length vs = 0), violations = vs, reasons = rs,
                 adjusted_quantity = None \<rparr>))"

definition check_buying_power ::
    "RiskManager \<Rightarrow> TradeRecommendation \<Rightarrow> AccountInfo \<Rightarrow> RiskCheckResult" where
  "check_buying_power self recommendation account_info =
     (let required_bp = estimate_buying_power_requirement recommendation;
          available_bp = buying_power account_info;
          short = (required_bp > available_bp);
          vs = (if short then [BUYING_POWER_INSUFFICIENT] else []);
          rs = (if short then [InsufficientBuyingPower required_bp available_bp] else [])
      in \<lparr> approved = (length vs = 0), violations = vs, reasons = rs,
           adjusted_quantity = None \<rparr>)"

text \<open>
  \<open>validate_trade\<close> threads three local variables through the five checks. Each block
  \<open>if not check.approved: violations.extend(...); reasons.extend(...)\<close> is one
  \<open>extend_if_rejected\<close>; the VIX block also copies the sub-check's adjusted quantity,
  inside the same \<open>if not vix_check.approved\<close>.
\<close>

definition extend_if_rejected ::
    "RiskCheckResult \<Rightarrow> RiskViolation list \<times> Reason list \<Rightarrow> RiskViolation list \<times> Reason list" where
  "extend_if_rejected chk acc =
     (if \<not> approved chk then (fst acc @ violations chk, snd acc @ reasons chk) else acc)"

definition validate_trade ::
    "RiskManager \<Rightarrow> TradeRecommendation \<Rightarrow> Position list \<Rightarrow> AccountInfo \<Rightarrow> real option
       \<Rightarrow> RiskCheckResult" where
  "validate_trade self recommendation positions account_info current_vix =
     (let acc0 = ([], []);
          acc1 = (case current_vix of
                    None \<Rightarrow> acc0
                  | Some vix \<Rightarrow> extend_if_rejected (check_vix_limits self vix recommendation) acc0);
          adjusted =
            (case current_vix of
               None \<Rightarrow> None
             | Some vix \<Rightarrow>
                 (let vix_check = check_vix_limits self vix recommendation
                  in if \<not> approved vix_check then adjusted_quantity vix_check else None));
          acc2 = extend_if_rejected
                   (check_margin_usage self recommendation positions account_info) acc1;
          acc3 = extend_if_rejected
                   (check_position_limits self recommendation positions) acc2;
          acc4 = extend_if_rejected
                   (check_concentration self recommendation positions account_info) acc3;
          acc5 = extend_if_rejected
                   (check_buying_power self recommendation account_info) acc4
      in \<lparr> approved = (length (fst acc5) = 0), violations = fst acc5, reasons = snd acc5,
           adjusted_quantity = adjusted \<rparr>)"

section \<open>Strategy base (src/strategy\_base.py)\<close>

text \<open>
  \<open>_find_option_by_delta\<close>. The filtering loop, with its four \<open>continue\<close>s in the
  source's order; \<open>dte\<close> is \<open>(option.expiration.date() - today).days\<close>.
\<close>

fun delta_candidates ::
    "date \<Rightarrow> string \<Rightarrow> int \<Rightarrow> int \<Rightarrow> OptionChainData list \<Rightarrow> OptionChainData list" where
  "delta_candidates today right min_dte max_dte [] = []"
| "delta_candidates today right min_dte max_dte (option # rest) =
     (if o_right option \<noteq> right then delta_candidates today right min_dte max_dte rest
      else if date_of (o_expiration option) - today < min_dte
              \<or> date_of (o_expiration option) - today > max_dte
        then delta_candidates today right min_dte max_dte rest
      else if o_delta option = None then delta_candidates today right min_dte max_dte rest
      else if o_bid option \<le> 0 \<or> o_ask option \<le> 0
        then delta_candidates today right min_dte max_dte rest
      else option # delta_candidates today right min_dte max_dte rest)"

text \<open>Python's \<open>min(xs, key=f)\<close> on a non-empty list: it keeps the first element and
  replaces it only by a later one whose key is strictly smaller.\<close>

fun min_by :: "('a \<Rightarrow> real) \<Rightarrow> 'a \<Rightarrow> 'a list \<Rightarrow> 'a" where
  "min_by key best [] = best"
| "min_by key best (x # xs) = min_by key (if key x < key best then x else best) xs"

text \<open>The key \<open>abs(o.delta - target)\<close>. Every candidate has a delta (lemma
  \<open>delta_candidates_have_delta\<close>), so the \<open>None\<close> branch is never evaluated.\<close>

definition delta_distance :: "real \<Rightarrow> OptionChainData \<Rightarrow> real" where
  "delta_distance target c = (case o_delta c of Some d \<Rightarrow> \<bar>d - target\<bar> | None \<Rightarrow> 0)"

definition find_option_by_delta ::
    "date \<Rightarrow> OptionChainData list \<Rightarrow> string \<Rightarrow> real \<Rightarrow> real \<Rightarrow> int \<Rightarrow> int
       \<Rightarrow> OptionChainData option" where
  "find_option_by_delta today options_chain right target_delta' stock_price min_dte max_dte =
     (case delta_candidates today right min_dte max_dte options_chain of
        [] \<Rightarrow> None
      | c # cs \<Rightarrow>
          (let target = (if right = ''P'' then - \<bar>target_delta'\<bar> else \<bar>target_delta'\<bar>)
           in Some (min_by (delta_distance target) c cs)))"

section \<open>Wheel strategy (src/core\_strategy.py)\<close>

text \<open>A strategy instance holds only its \<open>SymbolConfig\<close> (\<open>self.symbol\<close> is
  \<open>config.symbol\<close>), so \<open>self\<close> is the configuration.\<close>

definition check_put_position ::
    "SymbolConfig \<Rightarrow> date \<Rightarrow> Position \<Rightarrow> real \<Rightarrow> OptionChainData list
       \<Rightarrow> TradeRecommendation option" where
  "check_put_position self today position stock_price options_chain =
     (case p_expiration position of
        None \<Rightarrow> None
      | Some expiration \<Rightarrow>
          (let dte = date_of expiration - today;
               entry_credit = \<bar>p_avg_cost position\<bar>;
               current_value = \<bar>p_market_value position\<bar>;
               pnl_percent = (if entry_credit > 0
                              then (entry_credit - current_value) / entry_credit * 100 else 0)
           in if pnl_percent \<ge> roll_when_pnl_percent self then
                Some ((TradeRecommendation_init CLOSE_PUT (symbol self)
                         \<bar>p_quantity position\<bar> WHEEL)
                       \<lparr> r_existing_position := Some position,
                         r_reasoning :=
                           ClosePutForProfit pnl_percent (roll_when_pnl_percent self) \<rparr>)
              else if dte \<le> roll_when_dte self then
                (case find_option_by_delta today options_chain ''P'' (target_delta self)
                        stock_price (dte_min self) (dte_max self) of
                   None \<Rightarrow> None
                 | Some new_option \<Rightarrow>
                     Some ((TradeRecommendation_init ROLL_PUT (symbol self)
                              \<bar>p_quantity position\<bar> WHEEL)
                            \<lparr> r_existing_position := Some position,
                              r_new_strike := Some (o_strike new_option),
                              r_new_expiration := Some (o_expiration new_option),
                              r_premium := Some ((o_bid new_option + o_ask new_option) / 2),
                              r_delta := o_delta new_option,
                              r_reasoning := RollPutWithDte dte (roll_when_dte self) \<rparr>))
              else None))"

definition check_call_position ::
    "SymbolConfig \<Rightarrow> date \<Rightarrow> Position \<Rightarrow> real \<Rightarrow> OptionChainData list
       \<Rightarrow> TradeRecommendation option" where
  "check_call_position self today position stock_price options_chain =
     (case p_expiration position of
        None \<Rightarrow> None
      | Some expiration \<Rightarrow>
          (let dte = date_of expiration - today;
               entry_credit = \<bar>p_avg_cost position\<bar>;
               current_value = \<bar>p_market_value position\<bar>;
               pnl_percent = (if entry_credit > 0
                              then (entry_credit - current_value) / entry_credit * 100 else 0)
           in if pnl_percent \<ge> roll_when_pnl_percent self then
                Some ((TradeRecommendation_init CLOSE_CALL (symbol self)
                         \<bar>p_quantity position\<bar> WHEEL)
                       \<lparr> r_existing_position := Some position,
                         r_reasoning :=
                           CloseCallForProfit pnl_percent (roll_when_pnl_percent self) \<rparr>)
              else if dte \<le> roll_when_dte self then
                (case find_option_by_delta today options_chain ''C'' (target_delta self)
                        stock_price (dte_min self) (dte_max self) of
                   None \<Rightarrow> None
                 | Some new_option \<Rightarrow>
                     Some ((TradeRecommendation_init ROLL_CALL (symbol self)
                              \<bar>p_quantity position\<bar> WHEEL)
                            \<lparr> r_existing_position := Some position,
                              r_new_strike := Some (o_strike new_option),
                              r_new_expiration := Some (o_expiration new_option),
                              r_premium := Some ((o_bid new_option + o_ask new_option) / 2),
                              r_delta := o_delta new_option,
                              r_reasoning := RollCallWithDte dte (roll_when_dte self) \<rparr>))
              else None))"

text \<open>
  The two premium filters shared by \<open>_find_cash_secured_put\<close> and
  \<open>_find_covered_call\<close>: \<open>Inr True\<close> when the option is filtered out. The percent
  filter divides by the stock price, which raises \<open>ZeroDivisionError\<close> at price 0.
\<close>

definition premium_too_low :: "SymbolConfig \<Rightarrow> real \<Rightarrow> real \<Rightarrow> py_error + bool" where
  "premium_too_low self stock_price mid_price =
     (if min_premium self > 0 \<and> mid_price < min_premium self then Inr True
      else if min_premium_percent self > 0 then
        (if stock_price = 0 then Inl ZeroDivisionError
         else Inr ((mid_price / stock_price) * 100 < min_premium_percent self))
      else Inr False)"

definition find_cash_secured_put ::
    "SymbolConfig \<Rightarrow> date \<Rightarrow> real \<Rightarrow> OptionChainData list \<Rightarrow> AccountInfo \<Rightarrow> int
       \<Rightarrow> py_error + TradeRecommendation option" where
  "find_cash_secured_put self today stock_price options_chain account_info quantity =
     (case find_option_by_delta today options_chain ''P'' (target_delta self) stock_price
             (dte_min self) (dte_max self) of
        None \<Rightarrow> Inr None
      | Some option \<Rightarrow>
          (let mid_price = (o_bid option + o_ask option) / 2
           in case premium_too_low self stock_price mid_price of
                Inl e \<Rightarrow> Inl e
              | Inr True \<Rightarrow> Inr None
              | Inr False \<Rightarrow>
                  (let buying_power_required = o_strike option * 100 * real_of_int quantity
                   in if buying_power_required > buying_power account_info then Inr None
                      else Inr (Some
                        ((TradeRecommendation_init SELL_PUT (symbol self) quantity WHEEL)
                          \<lparr> r_strike := Some (o_strike option),
                            r_expiration := Some (o_expiration option),
                            r_right := Some ''P'',
                            r_premium := Some mid_price,
                            r_delta := o_delta option,
                            r_reasoning := SellCashSecuredPut (o_strike option)
                                (o_expiration option) mid_price (o_delta option) \<rparr>)))))"

definition find_covered_call ::
    "SymbolConfig \<Rightarrow> date \<Rightarrow> real \<Rightarrow> OptionChainData list \<Rightarrow> int
       \<Rightarrow> py_error + TradeRecommendation option" where
  "find_covered_call self today stock_price options_chain quantity =
     (case find_option_by_delta today options_chain ''C'' (target_delta self) stock_price
             (dte_min self) (dte_max self) of
        None \<Rightarrow> Inr None
      | Some option \<Rightarrow>
          (let mid_price = (o_bid option + o_ask option) / 2
           in case premium_too_low self stock_price mid_price of
                Inl e \<Rightarrow> Inl e
              | Inr True \<Rightarrow> Inr None
              | Inr False \<Rightarrow>
                  Inr (Some
                    ((TradeRecommendation_init SELL_CALL (symbol self) quantity WHEEL)
                      \<lparr> r_strike := Some (o_strike option),
                        r_expiration := Some (o_expiration option),
                        r_right := Some ''C'',
                        r_premium := Some mid_price,
                        r_delta := o_delta option,
                        r_reasoning := SellCoveredCall (o_strike option)
                            (o_expiration option) mid_price (o_delta option) \<rparr>))))"

text \<open>The loops \<open>for pos in ...: rec = check(pos); if rec: recommendations.append(rec)\<close>
  (a recommendation is a dataclass instance, always truthy).\<close>

fun check_positions ::
    "(Position \<Rightarrow> TradeRecommendation option) \<Rightarrow> Position list \<Rightarrow> TradeRecommendation list
       \<Rightarrow> TradeRecommendation list" where
  "check_positions check [] recommendations = recommendations"
| "check_positions check (pos # rest) recommendations =
     (case check pos of
        None \<Rightarrow> check_positions check rest recommendations
      | Some recommendation \<Rightarrow> check_positions check rest (recommendations @ [recommendation]))"

text \<open>\<open>recommendations.append(rec)\<close> after a finder that may have raised.\<close>

definition append_found ::
    "TradeRecommendation list \<Rightarrow> py_error + TradeRecommendation option
       \<Rightarrow> py_error + TradeRecommendation list" where
  "append_found recommendations found =
     (case found of
        Inl e \<Rightarrow> Inl e
      | Inr None \<Rightarrow> Inr recommendations
      | Inr (Some recommendation) \<Rightarrow> Inr (recommendations @ [recommendation]))"

definition wheel_analyze ::
    "SymbolConfig \<Rightarrow> date \<Rightarrow> real \<Rightarrow> OptionChainData list \<Rightarrow> Position list \<Rightarrow> AccountInfo
       \<Rightarrow> py_error + TradeRecommendation list" where
  "wheel_analyze self today stock_price options_chain positions account_info =
     (if \<not> enabled self then Inr []
      else
        (let stock_positions = filter (\<lambda>p. p_position_type p = ''stock'') positions;
             put_positions =
               filter (\<lambda>p. p_position_type p = ''option'' \<and> p_right p = Some ''P'') positions;
             call_positions =
               filter (\<lambda>p. p_position_type p = ''option'' \<and> p_right p = Some ''C'') positions;
             recommendations1 =
               check_positions
                 (\<lambda>put_pos. check_put_position self today put_pos stock_price options_chain)
                 put_positions [];
             recommendations2 =
               check_positions
                 (\<lambda>call_pos. check_call_position self today call_pos stock_price options_chain)
                 call_positions recommendations1;
             has_stock = list_ex (\<lambda>p. p_quantity p > 0) stock_positions;
             has_short_puts = list_ex (\<lambda>p. p_quantity p < 0) put_positions;
             has_short_calls = list_ex (\<lambda>p. p_quantity p < 0) call_positions;
             total_short_puts =
               sum_list (map (\<lambda>p. \<bar>p_quantity p\<bar>) (filter (\<lambda>p. p_quantity p < 0) put_positions));
             total_short_calls =
               sum_list (map (\<lambda>p. \<bar>p_quantity p\<bar>) (filter (\<lambda>p. p_quantity p < 0) call_positions))
         in if has_stock \<and> \<not> has_short_calls then
              (let stock_qty = sum_list (map p_quantity stock_positions);
                   contracts_to_sell = (stock_qty div 100) - total_short_calls
               in if contracts_to_sell > 0 then
                    append_found recommendations2
                      (find_covered_call self today stock_price options_chain contracts_to_sell)
                  else Inr recommendations2)
            else if \<not> has_stock \<and> \<not> has_short_puts then
              (if total_short_puts < max_positions self then
                 (let contracts_to_sell = max_positions self - total_short_puts
                  in append_found recommendations2
                       (find_cash_secured_put self today stock_price options_chain account_info
                          contracts_to_sell))
               else Inr recommendations2)
            else Inr recommendations2))"

section \<open>Iron condor strategy (src/iron\_condor\_strategy.py)\<close>

text \<open>The parameters that \<open>__init__\<close> fixes for every instance.\<close>

definition wing_width :: real where
  "wing_width = 5"

definition min_credit :: real where
  "min_credit = 1"

definition profit_target_percent :: real where
  "profit_target_percent = 50"

definition max_loss_percent :: real where
  "max_loss_percent = 200"

definition adjustment_threshold :: real where
  "adjustment_threshold = 1 / 10"

text \<open>An identified iron condor: the dict with keys \<open>expiration\<close>, \<open>long_put\<close>,
  \<open>short_put\<close>, \<open>short_call\<close>, \<open>long_call\<close>.\<close>

record IronCondorPosition =
  ic_expiration :: date
  ic_long_put :: Position
  ic_short_put :: Position
  ic_short_call :: Position
  ic_long_call :: Position

text \<open>
  \<open>by_expiration\<close> is a dict from expiration date to the positions expiring then; a
  Python dict iterates in insertion order, so it is an association list in the order in
  which the dates were first seen. \<open>group_add\<close> is
  \<open>if k not in d: d[k] = []; d[k].append(pos)\<close>.
\<close>

fun group_add ::
    "date \<Rightarrow> Position \<Rightarrow> (date \<times> Position list) list \<Rightarrow> (date \<times> Position list) list" where
  "group_add exp_key pos [] = [(exp_key, [pos])]"
| "group_add exp_key pos ((k, ps) # rest) =
     (if k = exp_key then (k, ps @ [pos]) # rest else (k, ps) # group_add exp_key pos rest)"

fun group_by_expiration ::
    "Position list \<Rightarrow> (date \<times> Position list) list \<Rightarrow> (date \<times> Position list) list" where
  "group_by_expiration [] by_expiration = by_expiration"
| "group_by_expiration (pos # rest) by_expiration =
     (case p_expiration pos of
        None \<Rightarrow> group_by_expiration rest by_expiration
      | Some expiration \<Rightarrow>
          group_by_expiration rest (group_add (date_of expiration) pos by_expiration))"

text \<open>
  \<open>sorted(ps, key=lambda p: p.strike)\<close>: a stable sort by strike. Comparing a missing
  strike (\<open>None\<close>) raises \<open>TypeError\<close>, which happens as soon as the list has two
  elements, since every element is compared at least once.
\<close>

definition sorted_by_strike :: "Position list \<Rightarrow> py_error + Position list" where
  "sorted_by_strike ps =
     (if length ps \<ge> 2 \<and> list_ex (\<lambda>p. p_strike p = None) ps then Inl TypeError
      else Inr (sort_key (\<lambda>p. case p_strike p of Some k \<Rightarrow> k | None \<Rightarrow> 0) ps))"

text \<open>The body of the loop over the groups: \<open>Inr (Some ic)\<close> when the group is appended
  to \<open>iron_condors\<close>.\<close>

definition identify_group :: "date \<Rightarrow> Position list \<Rightarrow> py_error + IronCondorPosition option" where
  "identify_group exp_date exp_positions =
     (let puts = filter (\<lambda>p. p_right p = Some ''P'') exp_positions;
          calls = filter (\<lambda>p. p_right p = Some ''C'') exp_positions
      in if length puts = 2 \<and> length calls = 2 then
           (case sorted_by_strike puts of
              Inl e \<Rightarrow> Inl e
            | Inr puts_sorted \<Rightarrow>
                (let short_put = (if p_quantity (puts_sorted ! 1) < 0
                                  then puts_sorted ! 1 else puts_sorted ! 0);
                     long_put = (if p_quantity (puts_sorted ! 0) > 0
                                 then puts_sorted ! 0 else puts_sorted ! 1)
                 in case sorted_by_strike calls of
                      Inl e \<Rightarrow> Inl e
                    | Inr calls_sorted \<Rightarrow>
                        (let short_call = (if p_quantity (calls_sorted ! 0) < 0
                                           then calls_sorted ! 0 else calls_sorted ! 1);
                             long_call = (if p_quantity (calls_sorted ! 1) > 0
                                          then calls_sorted ! 1 else calls_sorted ! 0)
                         in if p_quantity short_put < 0 \<and> p_quantity long_put > 0
                               \<and> p_quantity short_call < 0 \<and> p_quantity long_call > 0
                            then Inr (Some \<lparr> ic_expiration = exp_date, ic_long_put = long_put,
                                             ic_short_put = short_put,
                                             ic_short_call = short_call,
                                             ic_long_call = long_call \<rparr>)
                            else Inr None)))
         else Inr None)"

fun identify_groups ::
    "(date \<times> Position list) list \<Rightarrow> IronCondorPosition list
       \<Rightarrow> py_error + IronCondorPosition list" where
  "identify_groups [] iron_condors = Inr iron_condors"
| "identify_groups ((exp_date, exp_positions) # rest) iron_condors =
     (case identify_group exp_date exp_positions of
        Inl e \<Rightarrow> Inl e
      | Inr None \<Rightarrow> identify_groups rest iron_condors
      | Inr (Some ic) \<Rightarrow> identify_groups rest (iron_condors @ [ic]))"

definition identify_iron_condor_positions ::
    "Position list \<Rightarrow> py_error + IronCondorPosition list" where
  "identify_iron_condor_positions positions =
     (let option_positions = filter (\<lambda>p. p_position_type p = ''option'') positions;
          by_expiration = group_by_expiration option_positions []
      in identify_groups by_expiration [])"

text \<open>The recommendation every branch of \<open>_check_iron_condor_position\<close> builds, up to
  its action and reasoning.\<close>

definition iron_condor_recommendation ::
    "SymbolConfig \<Rightarrow> IronCondorPosition \<Rightarrow> Action \<Rightarrow> Reasoning \<Rightarrow> TradeRecommendation" where
  "iron_condor_recommendation self ic_position a why =
     (TradeRecommendation_init a (symbol self)
        \<bar>p_quantity (ic_short_put ic_position)\<bar> IRON_CONDOR)
       \<lparr> r_long_put_strike := p_strike (ic_long_put ic_position),
         r_short_put_strike := p_strike (ic_short_put ic_position),
         r_short_call_strike := p_strike (ic_short_call ic_position),
         r_long_call_strike := p_strike (ic_long_call ic_position),
         r_expiration := Some (at_midnight (ic_expiration ic_position)),
         r_reasoning := why \<rparr>"

text \<open>
  \<open>_check_iron_condor_position\<close>. The adjustment test subtracts each short strike from
  the stock price (\<open>TypeError\<close> on a missing strike) and divides by the stock price
  (\<open>ZeroDivisionError\<close> at 0), in that order: put distance first, then call distance.
\<close>

definition check_iron_condor_position ::
    "SymbolConfig \<Rightarrow> date \<Rightarrow> IronCondorPosition \<Rightarrow> real \<Rightarrow> OptionChainData list
       \<Rightarrow> py_error + TradeRecommendation option" where
  "check_iron_condor_position self today ic_position stock_price options_chain =
     (let exp_date = ic_expiration ic_position;
          dte = exp_date - today;
          total_credit = \<bar>p_avg_cost (ic_short_put ic_position)\<bar>
                       + \<bar>p_avg_cost (ic_short_call ic_position)\<bar>;
          total_debit = \<bar>p_avg_cost (ic_long_put ic_position)\<bar>
                      + \<bar>p_avg_cost (ic_long_call ic_position)\<bar>;
          entry_credit = total_credit - total_debit;
          current_value = \<bar>p_market_value (ic_short_put ic_position)\<bar>
                        + \<bar>p_market_value (ic_short_call ic_position)\<bar>
                        + \<bar>p_market_value (ic_long_put ic_position)\<bar>
                        + \<bar>p_market_value (ic_long_call ic_position)\<bar>;
          profit = entry_credit - current_value;
          profit_pct = (if entry_credit > 0 then profit / entry_credit * 100 else 0);
          loss_pct = (if profit_pct < 0 then \<bar>profit_pct\<bar> else 0)
      in if profit_pct \<ge> profit_target_percent then
           Inr (Some (iron_condor_recommendation self ic_position CLOSE_IRON_CONDOR
                        (CloseIronCondorForProfit profit_pct profit_target_percent)))
         else if loss_pct \<ge> max_loss_percent then
           Inr (Some (iron_condor_recommendation self ic_position CLOSE_IRON_CONDOR
                        (CloseIronCondorForLoss profit_pct max_loss_percent)))
         else if dte \<le> roll_when_dte self then
           Inr (Some (iron_condor_recommendation self ic_position ROLL_IRON_CONDOR
                        (RollIronCondorWithDte dte)))
         else
           (case p_strike (ic_short_put ic_position) of
              None \<Rightarrow> Inl TypeError
            | Some short_put_strike \<Rightarrow>
                if stock_price = 0 then Inl ZeroDivisionError
                else
                  (case p_strike (ic_short_call ic_position) of
                     None \<Rightarrow> Inl TypeError
                   | Some short_call_strike \<Rightarrow>
                       (let put_distance = \<bar>stock_price - short_put_strike\<bar> / stock_price;
                            call_distance = \<bar>stock_price - short_call_strike\<bar> / stock_price
                        in if put_distance < adjustment_threshold
                              \<or> call_distance < adjustment_threshold then
                             Inr (Some (iron_condor_recommendation self ic_position
                                          ADJUST_IRON_CONDOR
                                          (PriceTestingStrikes stock_price short_put_strike
                                             short_call_strike)))
                           else Inr None))))"

text \<open>\<open>sorted(list(expirations))\<close> of the set of expirations within the DTE window.\<close>

definition get_valid_expirations ::
    "SymbolConfig \<Rightarrow> date \<Rightarrow> OptionChainData list \<Rightarrow> datetime list" where
  "get_valid_expirations self today options_chain =
     sort (remdups (map o_expiration
       (filter (\<lambda>option. dte_min self \<le> date_of (o_expiration option) - today
                        \<and> date_of (o_expiration option) - today \<le> dte_max self)
          options_chain)))"

fun find_option_at_strike ::
    "OptionChainData list \<Rightarrow> string \<Rightarrow> real \<Rightarrow> datetime \<Rightarrow> OptionChainData option" where
  "find_option_at_strike [] right strike expiration = None"
| "find_option_at_strike (option # rest) right strike expiration =
     (if o_right option = right \<and> o_strike option = strike
         \<and> date_of (o_expiration option) = date_of expiration
         \<and> o_bid option > 0 \<and> o_ask option > 0
      then Some option
      else find_option_at_strike rest right strike expiration)"

definition find_new_iron_condor ::
    "SymbolConfig \<Rightarrow> date \<Rightarrow> real \<Rightarrow> OptionChainData list \<Rightarrow> AccountInfo
       \<Rightarrow> TradeRecommendation option" where
  "find_new_iron_condor self today stock_price options_chain account_info =
     (case get_valid_expirations self today options_chain of
        [] \<Rightarrow> None
      | target_exp # later \<Rightarrow>
     (case find_option_by_delta today options_chain ''P'' (3/10) stock_price
             (dte_min self) (dte_max self) of
        None \<Rightarrow> None
      | Some short_put \<Rightarrow>
     if date_of (o_expiration short_put) \<noteq> date_of target_exp then None
     else
     (case find_option_at_strike options_chain ''P'' (o_strike short_put - wing_width)
             target_exp of
        None \<Rightarrow> None
      | Some long_put \<Rightarrow>
     (case find_option_by_delta today options_chain ''C'' (3/10) stock_price
             (dte_min self) (dte_max self) of
        None \<Rightarrow> None
      | Some short_call \<Rightarrow>
     if date_of (o_expiration short_call) \<noteq> date_of target_exp then None
     else
     (case find_option_at_strike options_chain ''C'' (o_strike short_call + wing_width)
             target_exp of
        None \<Rightarrow> None
      | Some long_call \<Rightarrow>
          (let total_credit = (o_bid short_put + o_ask short_put) / 2
                            + (o_bid short_call + o_ask short_call) / 2;
               total_debit = (o_bid long_put + o_ask long_put) / 2
                           + (o_bid long_call + o_ask long_call) / 2;
               net_credit = total_credit - total_debit
           in if net_credit < min_credit then None
              else
                (let put_spread_width = o_strike short_put - o_strike long_put;
                     call_spread_width = o_strike long_call - o_strike short_call;
                     max_loss = max put_spread_width call_spread_width - net_credit
                 in Some ((TradeRecommendation_init SELL_IRON_CONDOR (symbol self) 1 IRON_CONDOR)
                           \<lparr> r_long_put_strike := Some (o_strike long_put),
                             r_short_put_strike := Some (o_strike short_put),
                             r_short_call_strike := Some (o_strike short_call),
                             r_long_call_strike := Some (o_strike long_call),
                             r_expiration := Some target_exp,
                             r_expected_credit := Some (net_credit * 100),
                             r_max_loss := Some (max_loss * 100),
                             r_max_profit := Some (net_credit * 100),
                             r_reasoning := SellIronCondorFor (o_strike long_put)
                                 (o_strike short_put) (o_strike short_call)
                                 (o_strike long_call) net_credit \<rparr>))))))))"

text \<open>The management loop of \<open>analyze\<close>; an exception raised by a check ends it.\<close>

fun check_iron_condors ::
    "SymbolConfig \<Rightarrow> date \<Rightarrow> real \<Rightarrow> OptionChainData list \<Rightarrow> IronCondorPosition list
       \<Rightarrow> TradeRecommendation list \<Rightarrow> py_error + TradeRecommendation list" where
  "check_iron_condors self today stock_price options_chain [] recommendations =
     Inr recommendations"
| "check_iron_condors self today stock_price options_chain (ic_pos # rest) recommendations =
     (case check_iron_condor_position self today ic_pos stock_price options_chain of
        Inl e \<Rightarrow> Inl e
      | Inr None \<Rightarrow>
          check_iron_condors self today stock_price options_chain rest recommendations
      | Inr (Some rec) \<Rightarrow>
          check_iron_condors self today stock_price options_chain rest (recommendations @ [rec]))"

definition iron_condor_analyze ::
    "SymbolConfig \<Rightarrow> date \<Rightarrow> real \<Rightarrow> OptionChainData list \<Rightarrow> Position list \<Rightarrow> AccountInfo
       \<Rightarrow> py_error + TradeRecommendation list" where
  "iron_condor_analyze self today stock_price options_chain positions account_info =
     (if \<not> enabled self then Inr []
      else
        (case identify_iron_condor_positions positions of
           Inl e \<Rightarrow> Inl e
         | Inr ic_positions \<Rightarrow>
             (case check_iron_condors self today stock_price options_chain ic_positions [] of
                Inl e \<Rightarrow> Inl e
              | Inr recommendations \<Rightarrow>
                  if int (length ic_positions) < max_positions self then
                    (case find_new_iron_condor self today stock_price options_chain
                            account_info of
                       None \<Rightarrow> Inr recommendations
                     | Some rec \<Rightarrow> Inr (recommendations @ [rec]))
                  else Inr recommendations)))"

section \<open>Strategy selector (src/strategy\_selector.py)\<close>

datatype MarketRegime = BULLISH | BEARISH | NEUTRAL | HIGH_VOLATILITY | LOW_VOLATILITY

text \<open>A strategy instance: its class and the \<open>SymbolConfig\<close> it was constructed with.\<close>

datatype Strategy = WheelStrategy SymbolConfig | IronCondorStrategy SymbolConfig

record StrategySelector =
  sel_config :: StrategyConfig
  sel_symbol_configs :: "string \<Rightarrow> SymbolConfig option"

definition detect_current_strategy :: "Position list \<Rightarrow> StrategyType option" where
  "detect_current_strategy positions =
     (let has_stock = list_ex (\<lambda>p. p_position_type p = ''stock'') positions
      in if has_stock then Some WHEEL
         else
           (let option_positions = filter (\<lambda>p. p_position_type p = ''option'') positions
            in if length option_positions = 1 then Some WHEEL
               else if length option_positions = 4 then
                 (let puts = filter (\<lambda>p. p_right p = Some ''P'') option_positions;
                      calls = filter (\<lambda>p. p_right p = Some ''C'') option_positions
                  in if length puts = 2 \<and> length calls = 2 then Some IRON_CONDOR else None)
               else None))"

text \<open>\<open>str.lower()\<close> on ASCII letters (no other character lowers to a letter of
  \<open>bullish\<close>, \<open>bearish\<close> or \<open>neutral\<close>).\<close>

definition lower_char :: "char \<Rightarrow> char" where
  "lower_char c =
     (let n = (of_char c :: nat) in if 65 \<le> n \<and> n \<le> 90 then char_of (n + 32) else c)"

definition lower :: "string \<Rightarrow> string" where
  "lower s = map lower_char s"

definition classify_market_regime :: "real option \<Rightarrow> string option \<Rightarrow> MarketRegime" where
  "classify_market_regime volatility trend =
     (let by_volatility =
            (case volatility of
               None \<Rightarrow> None
             | Some v \<Rightarrow>
                 if v = 0 then None
                 else if v > 35/100 then Some HIGH_VOLATILITY
                 else if v < 20/100 then Some LOW_VOLATILITY
                 else None)
      in case by_volatility of
           Some regime \<Rightarrow> regime
         | None \<Rightarrow>
             (case trend of
                None \<Rightarrow> NEUTRAL
              | Some t \<Rightarrow>
                  if t = [] then NEUTRAL
                  else if lower t = ''bullish'' then BULLISH
                  else if lower t = ''bearish'' then BEARISH
                  else if lower t = ''neutral'' then NEUTRAL
                  else NEUTRAL))"

text \<open>The continuity block of \<open>select_best_strategy\<close>: the strategy it returns, if any.\<close>

definition continue_existing ::
    "StrategySelector \<Rightarrow> SymbolConfig \<Rightarrow> Position list option \<Rightarrow> Strategy option" where
  "continue_existing self symbol_config existing_positions =
     (case existing_positions of
        None \<Rightarrow> None
      | Some positions \<Rightarrow>
          if positions = [] then None
          else
            (case detect_current_strategy positions of
               None \<Rightarrow> None
             | Some existing_strategy \<Rightarrow>
                 if existing_strategy = WHEEL \<and> wheel_enabled (sel_config self)
                   then Some (WheelStrategy symbol_config)
                 else if existing_strategy = IRON_CONDOR \<and> iron_condor_enabled (sel_config self)
                   then Some (IronCondorStrategy symbol_config)
                 else None))"

definition select_best_strategy ::
    "StrategySelector \<Rightarrow> string \<Rightarrow> real \<Rightarrow> real option \<Rightarrow> string option
       \<Rightarrow> Position list option \<Rightarrow> Strategy option" where
  "select_best_strategy self name stock_price volatility trend existing_positions =
     (case sel_symbol_configs self name of
        None \<Rightarrow> None
      | Some symbol_config \<Rightarrow>
          (case continue_existing self symbol_config existing_positions of
             Some strategy \<Rightarrow> Some strategy
           | None \<Rightarrow>
               (let regime = classify_market_regime volatility trend;
                    low_vol = (case volatility of None \<Rightarrow> False
                               | Some v \<Rightarrow> v \<noteq> 0 \<and> v < 25/100)
                in if regime = NEUTRAL \<and> low_vol \<and> iron_condor_enabled (sel_config self)
                     then Some (IronCondorStrategy symbol_config)
                   else if regime \<in> set [BULLISH, BEARISH] \<and> wheel_enabled (sel_config self)
                     then Some (WheelStrategy symbol_config)
                   else if regime = HIGH_VOLATILITY \<and> wheel_enabled (sel_config self)
                     then Some (WheelStrategy symbol_config)
                   else if wheel_enabled (sel_config self)
                     then Some (WheelStrategy symbol_config)
                   else None)))"

section \<open>Example data\<close>

definition ex_risk_config :: RiskConfig where
  "ex_risk_config =
     \<lparr> max_portfolio_margin_usage = 1/2, max_concentration_per_symbol = 1/4,
       max_vix_for_new_positions = None, reduce_size_when_vix_above = Some 30,
       vix_size_reduction_factor = 1/2, enable_stop_loss = False, stop_loss_percent = 50,
       max_total_positions = None \<rparr>"

definition ex_risk_manager :: RiskManager where
  "ex_risk_manager = \<lparr> config = ex_risk_config, symbol_configs = (\<lambda>s. None) \<rparr>"

definition ex_account :: AccountInfo where
  "ex_account =
     \<lparr> account_number = ''TEST'', net_liquidation = 1000000, total_cash = 500000,
       buying_power = 2000000, available_funds = 500000, excess_liquidity = 500000,
       margin_used = 0, margin_available = 500000 \<rparr>"

definition ex_sell_put :: "int \<Rightarrow> TradeRecommendation" where
  "ex_sell_put q = (TradeRecommendation_init SELL_PUT ''SPY'' q WHEEL) \<lparr> r_strike := Some 450 \<rparr>"

definition ex_sell_iron_condor :: TradeRecommendation where
  "ex_sell_iron_condor =
     (TradeRecommendation_init SELL_IRON_CONDOR ''SPY'' 1 IRON_CONDOR)
       \<lparr> r_long_put_strike := Some 435, r_short_put_strike := Some 440,
         r_short_call_strike := Some 460, r_long_call_strike := Some 465,
         r_expected_credit := Some 300, r_max_loss := Some 200, r_max_profit := Some 300 \<rparr>"

definition ex_stock :: "real \<Rightarrow> Position" where
  "ex_stock mv =
     \<lparr> p_symbol = ''SPY'', p_position_type = ''stock'', p_quantity = 600, p_avg_cost = 445,
       p_market_value = mv, p_unrealized_pnl = 0, p_realized_pnl = 0,
       p_strike = None, p_expiration = None, p_right = None \<rparr>"

definition ex_option ::
    "string \<Rightarrow> real \<Rightarrow> real option \<Rightarrow> int \<Rightarrow> real \<Rightarrow> real \<Rightarrow> OptionChainData" where
  "ex_option right strike delta days bid ask =
     \<lparr> o_symbol = ''SPY'', o_strike = strike, o_expiration = at_midnight days,
       o_right = right, o_bid = bid, o_ask = ask, o_last = (bid + ask) / 2,
       o_volume = 100, o_open_interest = 500, o_delta = delta, o_gamma = None,
       o_theta = None, o_vega = None, o_iv = None \<rparr>"

definition ex_chain :: "OptionChainData list" where
  "ex_chain =
     [ex_option ''P'' 430 (Some (- 2/10)) 35 (12/5) (13/5),
      ex_option ''C'' 460 (Some (3/10)) 35 (12/5) (13/5),
      ex_option ''P'' 440 (Some (- 3/10)) 35 (12/5) (13/5),
      ex_option ''P'' 441 (Some (- 3/10)) 60 (12/5) (13/5),
      ex_option ''P'' 442 None 35 (12/5) (13/5),
      ex_option ''P'' 443 (Some (- 3/10)) 35 0 (13/5),
      ex_option ''P'' 445 (Some (- 2/10)) 35 (12/5) (13/5)]"



definition ex_symbol_config :: SymbolConfig where
  "ex_symbol_config =
     \<lparr> symbol = ''SPY'', enabled = True, max_positions = 1, target_delta = 3/10,
       min_premium = 0, min_premium_percent = 0, dte_min = 30, dte_max = 45,
       roll_when_dte = 21, roll_when_pnl_percent = 50,
       write_calls_on_assignment = True, max_position_size_percent = 10 \<rparr>"

definition ex_leg :: "string \<Rightarrow> int \<Rightarrow> real \<Rightarrow> real \<Rightarrow> real \<Rightarrow> int \<Rightarrow> Position" where
  "ex_leg right qty strike cost mv days =
     \<lparr> p_symbol = ''SPY'', p_position_type = ''option'', p_quantity = qty, p_avg_cost = cost,
       p_market_value = mv, p_unrealized_pnl = 0, p_realized_pnl = 0,
       p_strike = Some strike, p_expiration = Some (at_midnight days), p_right = Some right \<rparr>"



definition ex_selector :: StrategySelector where
  "ex_selector =
     \<lparr> sel_config = \<lparr> strategy_name = ''wheel'', wheel_enabled = True,
                       prefer_cash_secured_puts = True, iron_condor_enabled = True,
                       strangle_enabled = False \<rparr>,
       sel_symbol_configs = (\<lambda>s. if s = ''SPY'' then Some ex_symbol_config else None) \<rparr>"

definition ex_condor_legs :: "Position list" where
  "ex_condor_legs =
     [ex_leg ''P'' 1 435 100 100 30, ex_leg ''P'' (- 1) 440 250 (- 250) 30,
      ex_leg ''C'' (- 1) 460 250 (- 250) 30, ex_leg ''C'' 1 465 100 100 30]"




definition ex_reversed_put_legs :: "Position list" where
  "ex_reversed_put_legs =
     [ex_leg ''P'' (- 1) 435 250 (- 250) 30, ex_leg ''P'' 1 440 100 100 30,
      ex_leg ''C'' (- 1) 460 250 (- 250) 30, ex_leg ''C'' 1 465 100 100 30]"

section \<open>Properties of the risk manager\<close>

lemmas risk_defs =
  validate_trade_def extend_if_rejected_def check_vix_limits_def check_margin_usage_def
  check_position_limits_def check_concentration_def check_buying_power_def
  estimate_buying_power_requirement_def estimate_margin_requirement_def
  estimate_position_value_def current_exposure_def is_opening_def py_int_def Let_def

lemmas ex_risk_defs =
  ex_risk_config_def ex_risk_manager_def ex_account_def ex_sell_put_def
  ex_sell_iron_condor_def ex_stock_def TradeRecommendation_init_def

lemma extend_if_rejected_fst:
  "fst (extend_if_rejected chk acc) = fst acc @ (if approved chk then [] else violations chk)"
  by (simp add: extend_if_rejected_def)

lemma extend_if_rejected_snd:
  "snd (extend_if_rejected chk acc) = snd acc @ (if approved chk then [] else reasons chk)"
  by (simp add: extend_if_rejected_def)

text \<open>Every sub-check is approved exactly when it recorded no violation.\<close>

lemma vix_wf:
  "violations (check_vix_limits self vix r) = [] \<longleftrightarrow> approved (check_vix_limits self vix r)"
  by (simp add: check_vix_limits_def Let_def)

lemma margin_wf:
  "violations (check_margin_usage self r ps a) = [] \<longleftrightarrow> approved (check_margin_usage self r ps a)"
  by (simp add: check_margin_usage_def Let_def)

lemma positions_wf:
  "violations (check_position_limits self r ps) = []
     \<longleftrightarrow> approved (check_position_limits self r ps)"
  by (simp add: check_position_limits_def Let_def)

lemma concentration_wf:
  "violations (check_concentration self r ps a) = []
     \<longleftrightarrow> approved (check_concentration self r ps a)"
  by (simp add: check_concentration_def Let_def)

lemma buying_power_wf:
  "violations (check_buying_power self r a) = [] \<longleftrightarrow> approved (check_buying_power self r a)"
  by (simp add: check_buying_power_def Let_def)

lemma validate_trade_approved_iff:
  "approved (validate_trade self r ps a v) \<longleftrightarrow>
     (case v of None \<Rightarrow> True | Some vix \<Rightarrow> approved (check_vix_limits self vix r))
     \<and> approved (check_margin_usage self r ps a)
     \<and> approved (check_position_limits self r ps)
     \<and> approved (check_concentration self r ps a)
     \<and> approved (check_buying_power self r a)"
proof -
  have e: "\<And>chk acc. fst (extend_if_rejected chk acc) = []
             \<longleftrightarrow> fst acc = [] \<and> (approved chk \<or> violations chk = [])"
    by (auto simp: extend_if_rejected_def)
  show ?thesis
    by (cases v)
       (auto simp: validate_trade_def Let_def e vix_wf margin_wf positions_wf
          concentration_wf buying_power_wf)
qed




lemma margin_rejected:
  "\<not> approved (check_margin_usage self r ps a) \<Longrightarrow>
     violations (check_margin_usage self r ps a) = [MARGIN_EXCEEDED]
     \<and> reasons (check_margin_usage self r ps a) \<noteq> []"
  by (auto simp: check_margin_usage_def Let_def split: if_splits)

lemma concentration_rejected:
  "\<not> approved (check_concentration self r ps a) \<Longrightarrow>
     CONCENTRATION_EXCEEDED \<in> set (violations (check_concentration self r ps a))
     \<and> reasons (check_concentration self r ps a) \<noteq> []"
  by (auto simp: check_concentration_def Let_def split: if_splits option.splits)

lemma vix_only_reduce_approved:
  assumes "case max_vix_for_new_positions (config self) of None \<Rightarrow> True | Some m \<Rightarrow> \<not> vix > m"
  shows "approved (check_vix_limits self vix r)"
  using assms by (simp add: check_vix_limits_def Let_def split: option.splits)

text \<open>
  Claim C1. For a sell_put or sell_call recommendation, with the reduce-size threshold
  configured and exceeded by the VIX and the hard block not exceeded (or not configured),
  the claim says that validate_trade returns approved = true and adjusted_quantity =
  max(1, floor(quantity * factor)). The VIX sub-check does compute that quantity, but
  validate_trade reads the sub-check's adjusted quantity only inside
  \<open>if not vix_check.approved\<close>, and here the sub-check is approved: the result's
  adjusted_quantity is always None, so the reduction never reaches the caller.
\<close>

theorem validate_trade_drops_vix_adjustment:
  assumes "r_action r = SELL_PUT \<or> r_action r = SELL_CALL"
      and "reduce_size_when_vix_above (config self) = Some t" and "vix > t"
      and "case max_vix_for_new_positions (config self) of None \<Rightarrow> True | Some m \<Rightarrow> \<not> vix > m"
  shows "adjusted_quantity (check_vix_limits self vix r) =
           (if py_int (real_of_int (r_quantity r) * vix_size_reduction_factor (config self))
                 < r_quantity r
            then Some (max 1 (py_int (real_of_int (r_quantity r)
                                       * vix_size_reduction_factor (config self))))
            else None)
         \<and> adjusted_quantity (validate_trade self r ps a (Some vix)) = None"
proof -
  have ok: "approved (check_vix_limits self vix r)"
    using assms(4) by (rule vix_only_reduce_approved)
  have "is_opening r" using assms(1) by (auto simp: is_opening_def)
  then have "adjusted_quantity (check_vix_limits self vix r) =
           (if py_int (real_of_int (r_quantity r) * vix_size_reduction_factor (config self))
                 < r_quantity r
            then Some (max 1 (py_int (real_of_int (r_quantity r)
                                       * vix_size_reduction_factor (config self))))
            else None)"
    using assms(2,3) by (simp add: check_vix_limits_def Let_def)
  moreover have "adjusted_quantity (validate_trade self r ps a (Some vix)) = None"
    using ok by (simp add: validate_trade_def Let_def)
  ultimately show ?thesis by simp
qed

text \<open>The failing input: sell 4 SPY puts at VIX 35 with the threshold at 30 and the
  factor 0.5. The sub-check computes 2; validate_trade approves and returns None.\<close>

theorem validate_trade_drops_vix_adjustment_witness:
  "adjusted_quantity (check_vix_limits ex_risk_manager 35 (ex_sell_put 4)) = Some 2
   \<and> adjusted_quantity (validate_trade ex_risk_manager (ex_sell_put 4) [] ex_account (Some 35))
       = None
   \<and> approved (validate_trade ex_risk_manager (ex_sell_put 4) [] ex_account (Some 35))"
proof -
  have a: "r_action (ex_sell_put 4) = SELL_PUT \<or> r_action (ex_sell_put 4) = SELL_CALL"
    by (simp add: ex_risk_defs)
  have b: "reduce_size_when_vix_above (config ex_risk_manager) = Some 30"
    by (simp add: ex_risk_defs)
  have c: "(35::real) > 30" by simp
  have d: "case max_vix_for_new_positions (config ex_risk_manager) of
             None \<Rightarrow> True | Some m \<Rightarrow> \<not> 35 > m"
    by (simp add: ex_risk_defs)
  have q: "r_quantity (ex_sell_put 4) = 4"
    by (simp add: ex_risk_defs)
  have f: "vix_size_reduction_factor (config ex_risk_manager) = 1/2"
    by (simp add: ex_risk_defs)
  note t = validate_trade_drops_vix_adjustment [OF a b c d, of "[]" ex_account]
  have e: "approved (validate_trade ex_risk_manager (ex_sell_put 4) [] ex_account (Some 35))"
    by (simp add: risk_defs ex_risk_defs)
  show ?thesis using t e by (simp add: q f py_int_def)
qed

text \<open>
  Claim C3. The violations and the reasons of validate_trade's result are the
  concatenation, in the order the checks run, of those of the sub-checks that were not
  approved (the VIX check runs only when a VIX is supplied); approved holds exactly when
  that list of violations is empty, which is exactly when every sub-check was approved.
  In particular, when both the margin check and the concentration check reject, the one
  result carries MARGIN_EXCEEDED and CONCENTRATION_EXCEEDED and the reasons of both.
\<close>

theorem validate_trade_unions_failing_checks:
  "let checks =
         (case v of None \<Rightarrow> [] | Some vix \<Rightarrow> [check_vix_limits self vix r])
         @ [check_margin_usage self r ps a, check_position_limits self r ps,
            check_concentration self r ps a, check_buying_power self r a];
       failing = filter (\<lambda>c. \<not> approved c) checks;
       res = validate_trade self r ps a v
   in violations res = concat (map violations failing)
      \<and> reasons res = concat (map reasons failing)
      \<and> (approved res \<longleftrightarrow> violations res = [])
      \<and> (approved res \<longleftrightarrow> list_all approved checks)
      \<and> (\<not> approved (check_margin_usage self r ps a)
           \<and> \<not> approved (check_concentration self r ps a) \<longrightarrow>
           MARGIN_EXCEEDED \<in> set (violations res)
           \<and> CONCENTRATION_EXCEEDED \<in> set (violations res)
           \<and> reasons (check_margin_usage self r ps a) \<noteq> []
           \<and> set (reasons (check_margin_usage self r ps a)) \<subseteq> set (reasons res)
           \<and> reasons (check_concentration self r ps a) \<noteq> []
           \<and> set (reasons (check_concentration self r ps a)) \<subseteq> set (reasons res))"
proof -
  let ?checks = "(case v of None \<Rightarrow> [] | Some vix \<Rightarrow> [check_vix_limits self vix r])
         @ [check_margin_usage self r ps a, check_position_limits self r ps,
            check_concentration self r ps a, check_buying_power self r a]"
  let ?failing = "filter (\<lambda>c. \<not> approved c) ?checks"
  let ?res = "validate_trade self r ps a v"
  have vs: "violations ?res = concat (map violations ?failing)"
    by (cases v)
       (simp_all add: validate_trade_def Let_def extend_if_rejected_fst extend_if_rejected_snd)
  have rs: "reasons ?res = concat (map reasons ?failing)"
    by (cases v)
       (simp_all add: validate_trade_def Let_def extend_if_rejected_fst extend_if_rejected_snd)
  have ap: "approved ?res \<longleftrightarrow> violations ?res = []"
    by (simp add: validate_trade_def Let_def)
  have al: "approved ?res \<longleftrightarrow> list_all approved ?checks"
    by (cases v) (simp_all add: validate_trade_approved_iff)
  have both: "MARGIN_EXCEEDED \<in> set (violations ?res)
           \<and> CONCENTRATION_EXCEEDED \<in> set (violations ?res)
           \<and> reasons (check_margin_usage self r ps a) \<noteq> []
           \<and> set (reasons (check_margin_usage self r ps a)) \<subseteq> set (reasons ?res)
           \<and> reasons (check_concentration self r ps a) \<noteq> []
           \<and> set (reasons (check_concentration self r ps a)) \<subseteq> set (reasons ?res)"
    if m: "\<not> approved (check_margin_usage self r ps a)"
      and c: "\<not> approved (check_concentration self r ps a)"
  proof -
    have sub: "set (violations c) \<subseteq> set (violations ?res)
               \<and> set (reasons c) \<subseteq> set (reasons ?res)"
      if "c \<in> set ?checks" and "\<not> approved c" for c
      using that unfolding vs rs by auto
    have im: "check_margin_usage self r ps a \<in> set ?checks" by simp
    have ic: "check_concentration self r ps a \<in> set ?checks" by simp
    show ?thesis
      using sub [OF im m] sub [OF ic c] margin_rejected [OF m] concentration_rejected [OF c]
      by auto
  qed
  show ?thesis
    unfolding Let_def using vs rs ap al both by blast
qed

text \<open>Selling 20 SPY puts at strike 450 needs 900000 of margin on a net liquidation of
  1000000: the margin check (limit 50 percent) and the concentration check (limit 25
  percent) both reject, and the result carries both.\<close>

theorem validate_trade_unions_failing_checks_witness:
  "violations (validate_trade ex_risk_manager (ex_sell_put 20) [] ex_account None)
     = [MARGIN_EXCEEDED, CONCENTRATION_EXCEEDED]
   \<and> reasons (validate_trade ex_risk_manager (ex_sell_put 20) [] ex_account None)
     = [MarginUsageAboveLimit (9/10) (1/2), ConcentrationAboveLimit ''SPY'' (9/10) (1/4)]
   \<and> \<not> approved (validate_trade ex_risk_manager (ex_sell_put 20) [] ex_account None)"
proof -
  have m: "check_margin_usage ex_risk_manager (ex_sell_put 20) [] ex_account =
             \<lparr> approved = False, violations = [MARGIN_EXCEEDED],
               reasons = [MarginUsageAboveLimit (9/10) (1/2)], adjusted_quantity = None \<rparr>"
    by (simp add: risk_defs ex_risk_defs)
  have p: "approved (check_position_limits ex_risk_manager (ex_sell_put 20) [])"
    by (simp add: risk_defs ex_risk_defs)
  have c: "check_concentration ex_risk_manager (ex_sell_put 20) [] ex_account =
             \<lparr> approved = False, violations = [CONCENTRATION_EXCEEDED],
               reasons = [ConcentrationAboveLimit ''SPY'' (9/10) (1/4)],
               adjusted_quantity = None \<rparr>"
    by (simp add: risk_defs ex_risk_defs)
  have b: "approved (check_buying_power ex_risk_manager (ex_sell_put 20) ex_account)"
    by (simp add: risk_defs ex_risk_defs)
  show ?thesis
    using validate_trade_unions_failing_checks
            [where v = None and self = ex_risk_manager and r = "ex_sell_put 20"
               and ps = "[]" and a = ex_account]
    by (simp add: Let_def m p c b)
qed




section \<open>Properties of the delta search\<close>

lemma delta_candidates_filter:
  "delta_candidates today right min_dte max_dte chain =
     filter (\<lambda>c. o_right c = right \<and> min_dte \<le> date_of (o_expiration c) - today
                \<and> date_of (o_expiration c) - today \<le> max_dte \<and> o_delta c \<noteq> None
                \<and> 0 < o_bid c \<and> 0 < o_ask c) chain"
  by (induction chain) auto




lemma date_of_at_midnight [simp]: "date_of (at_midnight d) = d"
  by (simp add: date_of_def at_midnight_def)

lemma delta_candidates_have_delta:
  "c \<in> set (delta_candidates today right min_dte max_dte chain) \<Longrightarrow> \<exists>d. o_delta c = Some d"
  by (auto simp: delta_candidates_filter)



section \<open>Properties of the wheel strategy\<close>

lemmas ex_wheel_defs = ex_symbol_config_def ex_leg_def TradeRecommendation_init_def















section \<open>Disabled symbols\<close>

text \<open>
  Claim C8. For a symbol configuration with enabled = false, analyze of the wheel strategy
  and analyze of the iron condor strategy both return the empty list, whatever the stock
  price, option chain, positions and account.
\<close>

theorem disabled_symbol_analyze_empty:
  assumes "\<not> enabled self"
  shows "wheel_analyze self today stock_price chain positions account_info = Inr []
       \<and> iron_condor_analyze self today stock_price chain positions account_info = Inr []"
  using assms by (simp add: wheel_analyze_def iron_condor_analyze_def)

theorem disabled_symbol_analyze_empty_witness:
  "\<not> enabled (ex_symbol_config \<lparr> enabled := False \<rparr>)
   \<and> wheel_analyze (ex_symbol_config \<lparr> enabled := False \<rparr>) 0 450 ex_chain ex_condor_legs
        ex_account = Inr []
   \<and> iron_condor_analyze (ex_symbol_config \<lparr> enabled := False \<rparr>) 0 450 ex_chain ex_condor_legs
        ex_account = Inr []"
proof -
  have d: "\<not> enabled (ex_symbol_config \<lparr> enabled := False \<rparr>)" by simp
  from disabled_symbol_analyze_empty [OF d, of 0 450 ex_chain ex_condor_legs ex_account] d
  show ?thesis by simp
qed

section \<open>Properties of the strategy selector\<close>

lemma detect_current_strategy_cases:
  "detect_current_strategy positions =
     (if (\<exists>p \<in> set positions. p_position_type p = ''stock'')
         \<or> length (filter (\<lambda>p. p_position_type p = ''option'') positions) = 1
      then Some WHEEL
      else if length (filter (\<lambda>p. p_position_type p = ''option'') positions) = 4
         \<and> length (filter (\<lambda>p. p_position_type p = ''option'' \<and> p_right p = Some ''P'') positions) = 2
         \<and> length (filter (\<lambda>p. p_position_type p = ''option'' \<and> p_right p = Some ''C'') positions) = 2
      then Some IRON_CONDOR
      else None)"
  by (auto simp: detect_current_strategy_def Let_def list_ex_iff conj_commute)

text \<open>
  Claim C7. For a configured symbol with a non-empty list of existing positions, the
  detection reads the positions in this order: any stock position, or exactly one option
  position, gives the wheel; otherwise exactly four option positions, two puts and two
  calls, give the iron condor; otherwise nothing is detected. When the detected strategy
  is enabled, select_best_strategy returns it (constructed with the symbol's
  configuration) for every volatility and trend: the regime is not consulted.
\<close>

theorem continuity_rule_first:
  assumes "sel_symbol_configs self name = Some symbol_config" and "positions \<noteq> []"
  shows "detect_current_strategy positions =
           (if (\<exists>p \<in> set positions. p_position_type p = ''stock'')
               \<or> length (filter (\<lambda>p. p_position_type p = ''option'') positions) = 1
            then Some WHEEL
            else if length (filter (\<lambda>p. p_position_type p = ''option'') positions) = 4
               \<and> length (filter (\<lambda>p. p_position_type p = ''option'' \<and> p_right p = Some ''P'')
                            positions) = 2
               \<and> length (filter (\<lambda>p. p_position_type p = ''option'' \<and> p_right p = Some ''C'')
                            positions) = 2
            then Some IRON_CONDOR
            else None)
       \<and> (detect_current_strategy positions = Some WHEEL \<and> wheel_enabled (sel_config self) \<longrightarrow>
            select_best_strategy self name stock_price volatility trend (Some positions)
              = Some (WheelStrategy symbol_config))
       \<and> (detect_current_strategy positions = Some IRON_CONDOR
            \<and> iron_condor_enabled (sel_config self) \<longrightarrow>
            select_best_strategy self name stock_price volatility trend (Some positions)
              = Some (IronCondorStrategy symbol_config))"
proof (intro conjI)
  show "detect_current_strategy positions =
           (if (\<exists>p \<in> set positions. p_position_type p = ''stock'')
               \<or> length (filter (\<lambda>p. p_position_type p = ''option'') positions) = 1
            then Some WHEEL
            else if length (filter (\<lambda>p. p_position_type p = ''option'') positions) = 4
               \<and> length (filter (\<lambda>p. p_position_type p = ''option'' \<and> p_right p = Some ''P'')
                            positions) = 2
               \<and> length (filter (\<lambda>p. p_position_type p = ''option'' \<and> p_right p = Some ''C'')
                            positions) = 2
            then Some IRON_CONDOR
            else None)"
    by (rule detect_current_strategy_cases)
  show "detect_current_strategy positions = Some WHEEL \<and> wheel_enabled (sel_config self) \<longrightarrow>
            select_best_strategy self name stock_price volatility trend (Some positions)
              = Some (WheelStrategy symbol_config)"
    using assms by (simp add: select_best_strategy_def continue_existing_def)
  show "detect_current_strategy positions = Some IRON_CONDOR
            \<and> iron_condor_enabled (sel_config self) \<longrightarrow>
            select_best_strategy self name stock_price volatility trend (Some positions)
              = Some (IronCondorStrategy symbol_config)"
    using assms by (simp add: select_best_strategy_def continue_existing_def)
qed

text \<open>With both strategies enabled: holding stock selects the wheel in a neutral
  regime at volatility 0.22, where no positions would select the iron condor; holding the
  four legs selects the iron condor in a bullish high-volatility regime, where no
  positions would select the wheel.\<close>

theorem continuity_rule_first_witness:
  "sel_symbol_configs ex_selector ''SPY'' = Some ex_symbol_config
   \<and> iron_condor_enabled (sel_config ex_selector) \<and> wheel_enabled (sel_config ex_selector)
   \<and> detect_current_strategy [ex_stock 45000] = Some WHEEL
   \<and> select_best_strategy ex_selector ''SPY'' 450 (Some (22/100)) (Some ''neutral'')
         (Some [ex_stock 45000]) = Some (WheelStrategy ex_symbol_config)
   \<and> select_best_strategy ex_selector ''SPY'' 450 (Some (22/100)) (Some ''neutral'')
         None = Some (IronCondorStrategy ex_symbol_config)
   \<and> detect_current_strategy ex_condor_legs = Some IRON_CONDOR
   \<and> select_best_strategy ex_selector ''SPY'' 450 (Some (45/100)) (Some ''bullish'')
         (Some ex_condor_legs) = Some (IronCondorStrategy ex_symbol_config)
   \<and> select_best_strategy ex_selector ''SPY'' 450 (Some (45/100)) (Some ''bullish'')
         None = Some (WheelStrategy ex_symbol_config)"
proof -
  have c: "sel_symbol_configs ex_selector ''SPY'' = Some ex_symbol_config"
    by (simp add: ex_selector_def)
  have e: "iron_condor_enabled (sel_config ex_selector)" "wheel_enabled (sel_config ex_selector)"
    by (simp_all add: ex_selector_def)
  have n1: "[ex_stock 45000] \<noteq> []" and n2: "ex_condor_legs \<noteq> []"
    by (simp_all add: ex_condor_legs_def)
  have d1: "detect_current_strategy [ex_stock 45000] = Some WHEEL"
    by (simp add: detect_current_strategy_def ex_stock_def)
  have d2: "detect_current_strategy ex_condor_legs = Some IRON_CONDOR"
    by (simp add: detect_current_strategy_def ex_condor_legs_def ex_leg_def)
  have s1: "select_best_strategy ex_selector ''SPY'' 450 (Some (22/100)) (Some ''neutral'')
         None = Some (IronCondorStrategy ex_symbol_config)"
    by (simp add: select_best_strategy_def continue_existing_def c e Let_def
        classify_market_regime_def lower_def lower_char_def)
  have s2: "select_best_strategy ex_selector ''SPY'' 450 (Some (45/100)) (Some ''bullish'')
         None = Some (WheelStrategy ex_symbol_config)"
    by (simp add: select_best_strategy_def continue_existing_def c e Let_def
        classify_market_regime_def)
  from continuity_rule_first [OF c n1, of 450 "Some (22/100)" "Some ''neutral''"]
       continuity_rule_first [OF c n2, of 450 "Some (45/100)" "Some ''bullish''"]
  show ?thesis using c e d1 d2 s1 s2 by simp
qed

section \<open>Properties of the iron condor strategy\<close>





section \<open>Properties of the iron condor reconstruction\<close>



lemma map_of_group_add:
  "map_of (group_add k p g) k' =
     (if k' = k then Some ((case map_of g k of None \<Rightarrow> [] | Some ps \<Rightarrow> ps) @ [p])
      else map_of g k')"
  by (induction g) (auto split: option.splits)

lemma keys_group_add: "fst ` set (group_add k p g) = insert k (fst ` set g)"
  by (induction k p g rule: group_add.induct) (simp_all add: insert_commute insert_absorb)

lemma distinct_group_add:
  "distinct (map fst g) \<Longrightarrow> distinct (map fst (group_add k p g))"
proof (induction g)
  case Nil
  then show ?case by simp
next
  case (Cons a g)
  obtain k' ps where a: "a = (k', ps)" by (cases a)
  show ?case
  proof (cases "k' = k")
    case True
    then show ?thesis using Cons.prems a by simp
  next
    case False
    have "k' \<notin> fst ` set (group_add k p g)"
      using Cons.prems a False by (simp add: keys_group_add)
    then show ?thesis using Cons a False by simp
  qed
qed

lemma distinct_group_by_expiration:
  "distinct (map fst g) \<Longrightarrow> distinct (map fst (group_by_expiration ps g))"
  by (induction ps arbitrary: g) (auto simp: distinct_group_add split: option.splits)

lemma map_of_group_by_expiration:
  "map_of (group_by_expiration ps g) d =
     (case map_of g d of
        None \<Rightarrow>
          (if filter (\<lambda>p. map_option date_of (p_expiration p) = Some d) ps = [] then None
           else Some (filter (\<lambda>p. map_option date_of (p_expiration p) = Some d) ps))
      | Some old \<Rightarrow>
          Some (old @ filter (\<lambda>p. map_option date_of (p_expiration p) = Some d) ps))"
proof (induction ps arbitrary: g)
  case Nil
  then show ?case by (simp split: option.splits)
next
  case (Cons pos ps)
  define E where "E = filter (\<lambda>p. map_option date_of (p_expiration p) = Some d) ps"
  note IH = Cons.IH [folded E_def]
  show ?case
  proof (cases "p_expiration pos")
    case None
    then have f: "filter (\<lambda>p. map_option date_of (p_expiration p) = Some d) (pos # ps) = E"
      by (simp add: E_def)
    have g: "group_by_expiration (pos # ps) g = group_by_expiration ps g"
      using None by simp
    show ?thesis unfolding f g by (rule IH)
  next
    case (Some e)
    have g: "group_by_expiration (pos # ps) g
               = group_by_expiration ps (group_add (date_of e) pos g)"
      using Some by simp
    show ?thesis
    proof (cases "d = date_of e")
      case True
      then have f: "filter (\<lambda>p. map_option date_of (p_expiration p) = Some d) (pos # ps)
                      = pos # E"
        using Some by (simp add: E_def)
      show ?thesis unfolding f g IH [of "group_add (date_of e) pos g"]
        using True by (simp add: map_of_group_add split: option.splits)
    next
      case False
      then have f: "filter (\<lambda>p. map_option date_of (p_expiration p) = Some d) (pos # ps) = E"
        using Some by (auto simp: E_def)
      show ?thesis unfolding f g IH [of "group_add (date_of e) pos g"]
        using False by (simp add: map_of_group_add)
    qed
  qed
qed

lemma groups_of_positions:
  "(d, g) \<in> set (group_by_expiration ps []) \<longleftrightarrow>
     g \<noteq> [] \<and> g = filter (\<lambda>p. map_option date_of (p_expiration p) = Some d) ps"
proof -
  have "distinct (map fst (group_by_expiration ps []))"
    by (rule distinct_group_by_expiration) simp
  then have "(d, g) \<in> set (group_by_expiration ps []) \<longleftrightarrow>
               map_of (group_by_expiration ps []) d = Some g"
    by simp
  then show ?thesis by (auto simp: map_of_group_by_expiration)
qed

lemma identify_group_expiration:
  "identify_group d g = Inr (Some ic) \<Longrightarrow> ic_expiration ic = d"
  by (auto simp: identify_group_def Let_def split: if_splits sum.splits)

lemma identify_groups_result:
  "identify_groups gs acc = Inr ics \<Longrightarrow>
     set ics = set acc \<union> {ic. \<exists>d g. (d, g) \<in> set gs \<and> identify_group d g = Inr (Some ic)}
     \<and> (\<forall>d g. (d, g) \<in> set gs \<longrightarrow> (\<exists>x. identify_group d g = Inr x))"
proof (induction gs acc rule: identify_groups.induct)
  case (1 iron_condors)
  then show ?case by simp
next
  case (2 exp_date exp_positions rest iron_condors)
  show ?case
  proof (cases "identify_group exp_date exp_positions")
    case (Inl e)
    then show ?thesis using "2.prems" by simp
  next
    case (Inr x)
    show ?thesis
    proof (cases x)
      case None
      then show ?thesis using "2.IH"(1) [OF Inr None] "2.prems" Inr by auto
    next
      case (Some ic)
      then show ?thesis using "2.IH"(2) [OF Inr Some] "2.prems" Inr by auto
    qed
  qed
qed

lemma identify_groups_returns:
  "(\<And>d g. (d, g) \<in> set gs \<Longrightarrow> \<exists>x. identify_group d g = Inr x) \<Longrightarrow>
     \<exists>ics. identify_groups gs acc = Inr ics"
proof (induction gs acc rule: identify_groups.induct)
  case (1 iron_condors)
  then show ?case by simp
next
  case (2 exp_date exp_positions rest iron_condors)
  from "2.prems" [of exp_date exp_positions]
  obtain x where x: "identify_group exp_date exp_positions = Inr x" by auto
  have rest: "\<And>d g. (d, g) \<in> set rest \<Longrightarrow> \<exists>x. identify_group d g = Inr x"
    using "2.prems" by simp
  show ?case
  proof (cases x)
    case None
    then show ?thesis using "2.IH"(1) [OF x None rest] x by simp
  next
    case (Some ic)
    then show ?thesis using "2.IH"(2) [OF x Some rest] x by simp
  qed
qed


lemma sorted_by_strike_pair:
  "sorted_by_strike [a, b] = Inr xs \<Longrightarrow> xs = [a, b] \<or> xs = [b, a]"
  by (auto simp: sorted_by_strike_def split: if_splits)

lemma sorted_by_strike_returns:
  "\<forall>p \<in> set ps. p_strike p \<noteq> None \<Longrightarrow> \<exists>xs. sorted_by_strike ps = Inr xs"
  by (simp add: sorted_by_strike_def list_ex_iff)

lemma identify_group_returns:
  assumes "\<forall>p \<in> set g. p_strike p \<noteq> None"
  shows "\<exists>x. identify_group d g = Inr x"
proof -
  obtain ps where ps: "sorted_by_strike (filter (\<lambda>p. p_right p = Some ''P'') g) = Inr ps"
    using sorted_by_strike_returns [of "filter (\<lambda>p. p_right p = Some ''P'') g"] assms by auto
  obtain cs where cs: "sorted_by_strike (filter (\<lambda>p. p_right p = Some ''C'') g) = Inr cs"
    using sorted_by_strike_returns [of "filter (\<lambda>p. p_right p = Some ''C'') g"] assms by auto
  show ?thesis by (simp add: identify_group_def Let_def ps cs)
qed

lemma choose_legs:
  fixes A B :: Position
  defines "s \<equiv> (if p_quantity A < 0 then A else B)"
      and "l \<equiv> (if p_quantity B > 0 then B else A)"
  shows "(p_quantity s < 0 \<and> p_quantity l > 0) \<longleftrightarrow>
           (p_quantity A < 0 \<and> p_quantity B > 0 \<or> p_quantity A > 0 \<and> p_quantity B < 0)"
    and "p_quantity s < 0 \<and> p_quantity l > 0 \<Longrightarrow>
           s = (if p_quantity A < 0 then A else B) \<and> l = (if p_quantity A < 0 then B else A)"
  unfolding s_def l_def by (auto split: if_splits)

lemma identify_group_two_by_two:
  assumes puts: "filter (\<lambda>p. p_right p = Some ''P'') g = [p1, p2]"
      and calls: "filter (\<lambda>p. p_right p = Some ''C'') g = [c1, c2]"
      and ret: "identify_group d g = Inr x"
  shows "(x \<noteq> None \<longleftrightarrow>
            (p_quantity p1 < 0 \<and> p_quantity p2 > 0 \<or> p_quantity p1 > 0 \<and> p_quantity p2 < 0)
          \<and> (p_quantity c1 < 0 \<and> p_quantity c2 > 0 \<or> p_quantity c1 > 0 \<and> p_quantity c2 < 0))
       \<and> (\<forall>ic. x = Some ic \<longrightarrow>
             ic_short_put ic = (if p_quantity p1 < 0 then p1 else p2)
           \<and> ic_long_put ic = (if p_quantity p1 < 0 then p2 else p1)
           \<and> ic_short_call ic = (if p_quantity c1 < 0 then c1 else c2)
           \<and> ic_long_call ic = (if p_quantity c1 < 0 then c2 else c1))"
proof -
  from ret obtain ps where ps: "sorted_by_strike [p1, p2] = Inr ps"
    by (auto simp: identify_group_def Let_def puts calls split: sum.splits)
  from ret ps obtain cs where cs: "sorted_by_strike [c1, c2] = Inr cs"
    by (auto simp: identify_group_def Let_def puts calls split: sum.splits)
  define sp where "sp = (if p_quantity (ps ! 1) < 0 then ps ! 1 else ps ! 0)"
  define lp where "lp = (if p_quantity (ps ! 0) > 0 then ps ! 0 else ps ! 1)"
  define sc where "sc = (if p_quantity (cs ! 0) < 0 then cs ! 0 else cs ! 1)"
  define lc where "lc = (if p_quantity (cs ! 1) > 0 then cs ! 1 else cs ! 0)"
  have "identify_group d g =
          Inr (if p_quantity sp < 0 \<and> p_quantity lp > 0 \<and> p_quantity sc < 0 \<and> p_quantity lc > 0
               then Some \<lparr> ic_expiration = d, ic_long_put = lp, ic_short_put = sp,
                           ic_short_call = sc, ic_long_call = lc \<rparr>
               else None)"
    unfolding sp_def lp_def sc_def lc_def
    by (simp add: identify_group_def Let_def puts calls ps cs)
  then have x: "x = (if p_quantity sp < 0 \<and> p_quantity lp > 0
                        \<and> p_quantity sc < 0 \<and> p_quantity lc > 0
                     then Some \<lparr> ic_expiration = d, ic_long_put = lp, ic_short_put = sp,
                                 ic_short_call = sc, ic_long_call = lc \<rparr>
                     else None)"
    using ret by simp
  have pc: "(p_quantity sp < 0 \<and> p_quantity lp > 0) \<longleftrightarrow>
              (p_quantity p1 < 0 \<and> p_quantity p2 > 0 \<or> p_quantity p1 > 0 \<and> p_quantity p2 < 0)"
    using sorted_by_strike_pair [OF ps] choose_legs(1) [of "ps ! 1" "ps ! 0"]
    unfolding sp_def lp_def by auto
  have pl: "sp = (if p_quantity p1 < 0 then p1 else p2) \<and> lp = (if p_quantity p1 < 0 then p2 else p1)"
    if "p_quantity sp < 0 \<and> p_quantity lp > 0"
    using sorted_by_strike_pair [OF ps] choose_legs(2) [of "ps ! 1" "ps ! 0"] that pc
    unfolding sp_def lp_def by (auto split: if_splits)
  have cc: "(p_quantity sc < 0 \<and> p_quantity lc > 0) \<longleftrightarrow>
              (p_quantity c1 < 0 \<and> p_quantity c2 > 0 \<or> p_quantity c1 > 0 \<and> p_quantity c2 < 0)"
    using sorted_by_strike_pair [OF cs] choose_legs(1) [of "cs ! 0" "cs ! 1"]
    unfolding sc_def lc_def by auto
  have cl: "sc = (if p_quantity c1 < 0 then c1 else c2) \<and> lc = (if p_quantity c1 < 0 then c2 else c1)"
    if "p_quantity sc < 0 \<and> p_quantity lc > 0"
    using sorted_by_strike_pair [OF cs] choose_legs(2) [of "cs ! 0" "cs ! 1"] that cc
    unfolding sc_def lc_def by (auto split: if_splits)
  have a: "x \<noteq> None \<longleftrightarrow>
            (p_quantity p1 < 0 \<and> p_quantity p2 > 0 \<or> p_quantity p1 > 0 \<and> p_quantity p2 < 0)
          \<and> (p_quantity c1 < 0 \<and> p_quantity c2 > 0 \<or> p_quantity c1 > 0 \<and> p_quantity c2 < 0)"
    unfolding x using pc cc by auto
  have b: "ic_short_put ic = (if p_quantity p1 < 0 then p1 else p2)
           \<and> ic_long_put ic = (if p_quantity p1 < 0 then p2 else p1)
           \<and> ic_short_call ic = (if p_quantity c1 < 0 then c1 else c2)
           \<and> ic_long_call ic = (if p_quantity c1 < 0 then c2 else c1)"
    if "x = Some ic" for ic
  proof -
    have h: "p_quantity sp < 0 \<and> p_quantity lp > 0" "p_quantity sc < 0 \<and> p_quantity lc > 0"
      using that unfolding x by (auto split: if_splits)
    then have "ic = \<lparr> ic_expiration = d, ic_long_put = lp, ic_short_put = sp,
                       ic_short_call = sc, ic_long_call = lc \<rparr>"
      using that unfolding x by simp
    then show ?thesis using pl [OF h(1)] cl [OF h(2)] by simp
  qed
  show ?thesis using a b by blast
qed


text \<open>A put spread the wrong way round (short put at 435 below the long put at 440) with a
  regular call spread is reported as an iron condor.\<close>

lemma identify_reversed_put_legs_eval:
  "identify_iron_condor_positions ex_reversed_put_legs =
     Inr [\<lparr> ic_expiration = 30,
            ic_long_put = ex_leg ''P'' 1 440 100 100 30,
            ic_short_put = ex_leg ''P'' (- 1) 435 250 (- 250) 30,
            ic_short_call = ex_leg ''C'' (- 1) 460 250 (- 250) 30,
            ic_long_call = ex_leg ''C'' 1 465 100 100 30 \<rparr>]
   \<and> p_strike (ex_leg ''P'' (- 1) 435 250 (- 250) 30) = Some 435
   \<and> p_strike (ex_leg ''P'' 1 440 100 100 30) = Some 440
   \<and> \<not> p_quantity (ex_leg ''P'' 1 440 100 100 30) < 0"
  by (simp add: identify_iron_condor_positions_def identify_group_def sorted_by_strike_def
      ex_reversed_put_legs_def ex_leg_def Let_def)

text \<open>
  Claim C2. For a position list whose option positions at one expiration date are exactly
  two puts and two calls, the claim says the group is reported if and only if the
  higher-strike put is short, the lower-strike put long, the lower-strike call short and
  the higher-strike call long. The code sorts each pair by strike and prefers those
  roles, but falls back to the other leg of the pair when the preferred one has the wrong
  sign, and then checks signs only. So the strike order never decides: whenever
  identification returns, the group is reported if and only if one put is short and the
  other long, and one call is short and the other long; the reported short legs are the
  ones with negative quantity. Identification returns (no TypeError from comparing a
  missing strike) whenever every option position has a strike.
\<close>

theorem identify_iron_condor_by_sign:
  assumes puts: "filter (\<lambda>p. p_position_type p = ''option''
                              \<and> map_option date_of (p_expiration p) = Some d
                              \<and> p_right p = Some ''P'') positions = [p1, p2]"
      and calls: "filter (\<lambda>p. p_position_type p = ''option''
                               \<and> map_option date_of (p_expiration p) = Some d
                               \<and> p_right p = Some ''C'') positions = [c1, c2]"
  shows "(\<forall>iron_condors. identify_iron_condor_positions positions = Inr iron_condors \<longrightarrow>
            ((\<exists>ic \<in> set iron_condors. ic_expiration ic = d) \<longleftrightarrow>
               (p_quantity p1 < 0 \<and> p_quantity p2 > 0 \<or> p_quantity p1 > 0 \<and> p_quantity p2 < 0)
             \<and> (p_quantity c1 < 0 \<and> p_quantity c2 > 0 \<or> p_quantity c1 > 0 \<and> p_quantity c2 < 0))
          \<and> (\<forall>ic \<in> set iron_condors. ic_expiration ic = d \<longrightarrow>
                ic_short_put ic = (if p_quantity p1 < 0 then p1 else p2)
              \<and> ic_long_put ic = (if p_quantity p1 < 0 then p2 else p1)
              \<and> ic_short_call ic = (if p_quantity c1 < 0 then c1 else c2)
              \<and> ic_long_call ic = (if p_quantity c1 < 0 then c2 else c1)))
       \<and> ((\<forall>p \<in> set positions. p_position_type p = ''option'' \<longrightarrow> p_strike p \<noteq> None) \<longrightarrow>
            (\<exists>iron_condors. identify_iron_condor_positions positions = Inr iron_condors))"
proof -
  define opts where "opts = filter (\<lambda>p. p_position_type p = ''option'') positions"
  define G where "G = filter (\<lambda>p. map_option date_of (p_expiration p) = Some d) opts"
  define gs where "gs = group_by_expiration opts []"
  have idf: "identify_iron_condor_positions positions = identify_groups gs []"
    by (simp add: identify_iron_condor_positions_def Let_def gs_def opts_def)
  have Gp: "filter (\<lambda>p. p_right p = Some ''P'') G = [p1, p2]"
    using puts by (simp add: G_def opts_def)
  have Gc: "filter (\<lambda>p. p_right p = Some ''C'') G = [c1, c2]"
    using calls by (simp add: G_def opts_def)
  have "G \<noteq> []" using Gp by auto
  then have Gin: "(d, G) \<in> set gs"
    unfolding gs_def G_def by (simp add: groups_of_positions)
  have first: "((\<exists>ic \<in> set ics. ic_expiration ic = d) \<longleftrightarrow>
               (p_quantity p1 < 0 \<and> p_quantity p2 > 0 \<or> p_quantity p1 > 0 \<and> p_quantity p2 < 0)
             \<and> (p_quantity c1 < 0 \<and> p_quantity c2 > 0 \<or> p_quantity c1 > 0 \<and> p_quantity c2 < 0))
          \<and> (\<forall>ic \<in> set ics. ic_expiration ic = d \<longrightarrow>
                ic_short_put ic = (if p_quantity p1 < 0 then p1 else p2)
              \<and> ic_long_put ic = (if p_quantity p1 < 0 then p2 else p1)
              \<and> ic_short_call ic = (if p_quantity c1 < 0 then c1 else c2)
              \<and> ic_long_call ic = (if p_quantity c1 < 0 then c2 else c1))"
    if ret: "identify_iron_condor_positions positions = Inr ics" for ics
  proof -
    from ret have r: "identify_groups gs [] = Inr ics" by (simp add: idf)
    note res = identify_groups_result [OF r]
    from res Gin obtain x where x: "identify_group d G = Inr x" by blast
    note two = identify_group_two_by_two [OF Gp Gc x]
    have mem: "ic \<in> set ics \<and> ic_expiration ic = d \<longleftrightarrow> x = Some ic" for ic
    proof
      assume a: "ic \<in> set ics \<and> ic_expiration ic = d"
      then obtain d' g where g: "(d', g) \<in> set gs" "identify_group d' g = Inr (Some ic)"
        using res by auto
      have "d' = d" using identify_group_expiration [OF g(2)] a by simp
      moreover have "g = G"
        using g(1) Gin \<open>d' = d\<close> unfolding gs_def by (simp add: groups_of_positions)
      ultimately show "x = Some ic" using g(2) x by simp
    next
      assume a: "x = Some ic"
      then have "ic \<in> set ics" using res Gin x by auto
      then show "ic \<in> set ics \<and> ic_expiration ic = d"
        using identify_group_expiration [of d G ic] x a by simp
    qed
    have "(\<exists>ic \<in> set ics. ic_expiration ic = d) \<longleftrightarrow> x \<noteq> None"
      using mem by auto
    then show ?thesis using two mem by blast
  qed
  have second: "\<exists>ics. identify_iron_condor_positions positions = Inr ics"
    if st: "\<forall>p \<in> set positions. p_position_type p = ''option'' \<longrightarrow> p_strike p \<noteq> None"
  proof -
    have "\<exists>x. identify_group d' g = Inr x" if "(d', g) \<in> set gs" for d' g
    proof -
      have "set g \<subseteq> set opts"
        using that unfolding gs_def by (auto simp: groups_of_positions)
      then have "\<forall>p \<in> set g. p_strike p \<noteq> None"
        using st unfolding opts_def by auto
      then show ?thesis by (rule identify_group_returns)
    qed
    then show ?thesis unfolding idf by (rule identify_groups_returns)
  qed
  show ?thesis using first second by blast
qed

text \<open>Every identified iron condor has the strikes of its four legs: the management
  check's adjustment test never raises TypeError on one.\<close>

lemma sorted_by_strike_pair_strikes:
  "sorted_by_strike [a, b] = Inr xs \<Longrightarrow> p_strike a \<noteq> None \<and> p_strike b \<noteq> None"
  by (auto simp: sorted_by_strike_def split: if_splits)

lemma identify_group_strikes:
  assumes "identify_group d g = Inr (Some ic)"
  shows "p_strike (ic_short_put ic) \<noteq> None \<and> p_strike (ic_long_put ic) \<noteq> None
       \<and> p_strike (ic_short_call ic) \<noteq> None \<and> p_strike (ic_long_call ic) \<noteq> None"
proof -
  from assms have len: "length (filter (\<lambda>p. p_right p = Some ''P'') g) = 2"
      "length (filter (\<lambda>p. p_right p = Some ''C'') g) = 2"
    by (auto simp: identify_group_def Let_def split: if_splits)
  from len(1) obtain p1 p2 where puts: "filter (\<lambda>p. p_right p = Some ''P'') g = [p1, p2]"
    by (auto simp: length_Suc_conv numeral_2_eq_2)
  from len(2) obtain c1 c2 where calls: "filter (\<lambda>p. p_right p = Some ''C'') g = [c1, c2]"
    by (auto simp: length_Suc_conv numeral_2_eq_2)
  from assms obtain ps where ps: "sorted_by_strike [p1, p2] = Inr ps"
    by (auto simp: identify_group_def Let_def puts calls split: sum.splits)
  from assms ps obtain cs where cs: "sorted_by_strike [c1, c2] = Inr cs"
    by (auto simp: identify_group_def Let_def puts calls split: sum.splits)
  from identify_group_two_by_two [OF puts calls assms]
  have legs: "ic_short_put ic \<in> {p1, p2}" "ic_long_put ic \<in> {p1, p2}"
       "ic_short_call ic \<in> {c1, c2}" "ic_long_call ic \<in> {c1, c2}"
    by (auto split: if_splits)
  show ?thesis
    using legs sorted_by_strike_pair_strikes [OF ps] sorted_by_strike_pair_strikes [OF cs]
    by auto
qed

lemma identified_condor_has_strikes:
  assumes "identify_iron_condor_positions positions = Inr iron_condors"
      and "ic \<in> set iron_condors"
  shows "p_strike (ic_short_put ic) \<noteq> None \<and> p_strike (ic_long_put ic) \<noteq> None
       \<and> p_strike (ic_short_call ic) \<noteq> None \<and> p_strike (ic_long_call ic) \<noteq> None"
proof -
  from assms(1) have "identify_groups
      (group_by_expiration (filter (\<lambda>p. p_position_type p = ''option'') positions) []) []
        = Inr iron_condors"
    by (simp add: identify_iron_condor_positions_def Let_def)
  from identify_groups_result [OF this] assms(2)
  obtain d g where "identify_group d g = Inr (Some ic)" by auto
  then show ?thesis by (rule identify_group_strikes)
qed

text \<open>The failing input: short put 435, long put 440, short call 460, long call 465, one
  expiration. The higher-strike put is long, yet the group is reported, with the 435 put
  as its short put. The regular condor (long put 435, short put 440) is reported too.\<close>

theorem identify_iron_condor_by_sign_witness:
  "filter (\<lambda>p. p_position_type p = ''option'' \<and> map_option date_of (p_expiration p) = Some 30
              \<and> p_right p = Some ''P'') ex_reversed_put_legs
     = [ex_leg ''P'' (- 1) 435 250 (- 250) 30, ex_leg ''P'' 1 440 100 100 30]
   \<and> filter (\<lambda>p. p_position_type p = ''option'' \<and> map_option date_of (p_expiration p) = Some 30
              \<and> p_right p = Some ''C'') ex_reversed_put_legs
     = [ex_leg ''C'' (- 1) 460 250 (- 250) 30, ex_leg ''C'' 1 465 100 100 30]
   \<and> p_strike (ex_leg ''P'' (- 1) 435 250 (- 250) 30) = Some 435
   \<and> p_strike (ex_leg ''P'' 1 440 100 100 30) = Some 440
   \<and> 0 < p_quantity (ex_leg ''P'' 1 440 100 100 30)
   \<and> (\<exists>iron_condors. identify_iron_condor_positions ex_reversed_put_legs = Inr iron_condors
         \<and> (\<exists>ic \<in> set iron_condors. ic_expiration ic = 30
               \<and> ic_short_put ic = ex_leg ''P'' (- 1) 435 250 (- 250) 30
               \<and> ic_long_put ic = ex_leg ''P'' 1 440 100 100 30))
   \<and> identify_iron_condor_positions ex_condor_legs =
       Inr [\<lparr> ic_expiration = 30,
              ic_long_put = ex_leg ''P'' 1 435 100 100 30,
              ic_short_put = ex_leg ''P'' (- 1) 440 250 (- 250) 30,
              ic_short_call = ex_leg ''C'' (- 1) 460 250 (- 250) 30,
              ic_long_call = ex_leg ''C'' 1 465 100 100 30 \<rparr>]"
proof -
  let ?sp = "ex_leg ''P'' (- 1) 435 250 (- 250) 30" and ?lp = "ex_leg ''P'' 1 440 100 100 30"
  let ?sc = "ex_leg ''C'' (- 1) 460 250 (- 250) 30" and ?lc = "ex_leg ''C'' 1 465 100 100 30"
  have p: "filter (\<lambda>p. p_position_type p = ''option''
              \<and> map_option date_of (p_expiration p) = Some 30
              \<and> p_right p = Some ''P'') ex_reversed_put_legs = [?sp, ?lp]"
    by (simp add: ex_reversed_put_legs_def ex_leg_def)
  have c: "filter (\<lambda>p. p_position_type p = ''option''
              \<and> map_option date_of (p_expiration p) = Some 30
              \<and> p_right p = Some ''C'') ex_reversed_put_legs = [?sc, ?lc]"
    by (simp add: ex_reversed_put_legs_def ex_leg_def)
  have st: "\<forall>p \<in> set ex_reversed_put_legs. p_position_type p = ''option'' \<longrightarrow> p_strike p \<noteq> None"
    by (simp add: ex_reversed_put_legs_def ex_leg_def)
  have q: "p_quantity ?sp < 0" "p_quantity ?lp > 0" "p_quantity ?sc < 0" "p_quantity ?lc > 0"
    by (simp_all add: ex_leg_def)
  have k: "p_strike ?sp = Some 435" "p_strike ?lp = Some 440"
    by (simp_all add: ex_leg_def)
  note t = identify_iron_condor_by_sign [OF p c]
  from t st obtain ics where ics: "identify_iron_condor_positions ex_reversed_put_legs = Inr ics"
    by blast
  from t ics q obtain ic where ic: "ic \<in> set ics" "ic_expiration ic = 30"
    by blast
  from t ics ic q have "ic_short_put ic = ?sp \<and> ic_long_put ic = ?lp"
    by simp
  then have rev: "\<exists>iron_condors. identify_iron_condor_positions ex_reversed_put_legs
                     = Inr iron_condors
         \<and> (\<exists>ic \<in> set iron_condors. ic_expiration ic = 30
               \<and> ic_short_put ic = ?sp \<and> ic_long_put ic = ?lp)"
    using ics ic by blast
  have ok: "identify_iron_condor_positions ex_condor_legs =
       Inr [\<lparr> ic_expiration = 30,
              ic_long_put = ex_leg ''P'' 1 435 100 100 30,
              ic_short_put = ex_leg ''P'' (- 1) 440 250 (- 250) 30,
              ic_short_call = ex_leg ''C'' (- 1) 460 250 (- 250) 30,
              ic_long_call = ex_leg ''C'' 1 465 100 100 30 \<rparr>]"
    by (simp add: identify_iron_condor_positions_def identify_group_def sorted_by_strike_def
        ex_condor_legs_def ex_leg_def Let_def)
  show ?thesis using p c k q(2) rev ok by simp
qed

end
